theory Spec2Isabelle
  imports Main
begin

section \<open>JavaScript values\<close>

text \<open>
  The report is JSON. A property that may be absent (\<open>undefined\<close> or \<open>null\<close>) is a
  \<open>string option\<close>; the spec types every field read here as text. A value is truthy
  when it is present and not the empty string. A JavaScript string is modelled by its
  UTF-8 encoding, a \<open>string\<close>; the em-dash the code uses as its "missing" sentinel is
  the three bytes \<open>E2 80 94\<close>.
\<close>

type_synonym field = "string option"

definition em_dash :: string where
  "em_dash = [CHR 0xE2, CHR 0x80, CHR 0x94]"

definition truthy :: "field \<Rightarrow> bool" where
  "truthy v = (case v of None \<Rightarrow> False | Some s \<Rightarrow> s \<noteq> [])"

text \<open>\<open>a || b\<close> on two optional properties, and \<open>a || 'text'\<close> ending a chain.\<close>

definition js_or :: "field \<Rightarrow> field \<Rightarrow> field" where
  "js_or a b = (if truthy a then a else b)"

definition or_str :: "field \<Rightarrow> string \<Rightarrow> string" where
  "or_str a d = (case a of None \<Rightarrow> d | Some s \<Rightarrow> if s = [] then d else s)"

text \<open>A number is an integer or \<open>NaN\<close>; only integers and \<open>NaN\<close> arise below.\<close>

datatype jsnum = NaN | Num int

fun num_sub :: "jsnum \<Rightarrow> jsnum \<Rightarrow> jsnum" where
  "num_sub (Num a) (Num b) = Num (a - b)"
| "num_sub _ _ = NaN"

fun num_add :: "jsnum \<Rightarrow> jsnum \<Rightarrow> jsnum" where
  "num_add (Num a) (Num b) = Num (a + b)"
| "num_add _ _ = NaN"

fun num_mul :: "jsnum \<Rightarrow> jsnum \<Rightarrow> jsnum" where
  "num_mul (Num a) (Num b) = Num (a * b)"
| "num_mul _ _ = NaN"

text \<open>Comparisons with \<open>NaN\<close> are false.\<close>

fun num_lt :: "jsnum \<Rightarrow> jsnum \<Rightarrow> bool" where
  "num_lt (Num a) (Num b) = (a < b)"
| "num_lt _ _ = False"

fun num_le :: "jsnum \<Rightarrow> jsnum \<Rightarrow> bool" where
  "num_le (Num a) (Num b) = (a \<le> b)"
| "num_le _ _ = False"

fun num_gt :: "jsnum \<Rightarrow> jsnum \<Rightarrow> bool" where
  "num_gt (Num a) (Num b) = (a > b)"
| "num_gt _ _ = False"

fun num_eq :: "jsnum \<Rightarrow> jsnum \<Rightarrow> bool" where
  "num_eq (Num a) (Num b) = (a = b)"
| "num_eq _ _ = False"

text \<open>\<open>Math.abs\<close> and \<open>Math.max(0, x)\<close>: both give \<open>NaN\<close> on \<open>NaN\<close>.\<close>

fun Math_abs :: "jsnum \<Rightarrow> jsnum" where
  "Math_abs (Num a) = Num \<bar>a\<bar>"
| "Math_abs NaN = NaN"

fun Math_max0 :: "jsnum \<Rightarrow> jsnum" where
  "Math_max0 (Num a) = Num (max 0 a)"
| "Math_max0 NaN = NaN"

text \<open>\<open>Number.prototype.toString\<close> on an integer (below 1e21) and on \<open>NaN\<close>.\<close>

fun nat_digits :: "nat \<Rightarrow> string" where
  "nat_digits n =
     (if n < 10 then [char_of (48 + n)]
      else nat_digits (n div 10) @ [char_of (48 + n mod 10)])"

declare nat_digits.simps [simp del]

fun num_toString :: "jsnum \<Rightarrow> string" where
  "num_toString NaN = ''NaN''"
| "num_toString (Num a) =
     (if a < 0 then CHR ''-'' # nat_digits (nat (- a)) else nat_digits (nat a))"

section \<open>Dates\<close>

text \<open>
  A \<open>Date\<close> object is modelled by what its local-time getters return: the calendar
  year, the month counted from 0, the day of the month, and the milliseconds since
  local midnight. \<open>InvalidDate\<close> is a Date whose time value is \<open>NaN\<close>; \<open>null\<close> is the
  \<open>None\<close> of \<open>jsdate option\<close>.
\<close>

record civil =
  getFullYear :: int
  getMonth :: int
  getDate :: int
  msOfDay :: int

datatype jsdate = InvalidDate | ValidDate civil

text \<open>
  The time value of a Date (milliseconds since the epoch) depends on the browser's time
  zone: every function that subtracts Dates takes as argument \<open>tz :: civil \<Rightarrow> int\<close>, the
  time value the engine gives to a local calendar time. Local midnights need not be 24
  hours apart (they are 23 or 25 hours apart across a daylight-saving change), and
  nothing is assumed about \<open>tz\<close>.
\<close>

definition DAY :: int where
  "DAY = 1000 * 60 * 60 * 24"

fun getTime :: "(civil \<Rightarrow> int) \<Rightarrow> jsdate \<Rightarrow> jsnum" where
  "getTime tz InvalidDate = NaN"
| "getTime tz (ValidDate c) = Num (tz c)"

text \<open>
  Two reference zones, to evaluate concrete examples. The day number of a calendar date
  (days since 1970-01-01, proleptic Gregorian) is computed as ECMAScript's \<open>MakeDay\<close>
  does. \<open>utc_zone\<close> is the zone without offset. \<open>toronto_2026\<close> is America/Toronto
  during 2026: five hours behind UTC, four hours from 8 March 03:00 to 1 November 02:00
  local time.
\<close>

definition days_from_civil :: "int \<Rightarrow> int \<Rightarrow> int \<Rightarrow> int" where
  "days_from_civil y m d =
     (let y' = (if m \<le> 2 then y - 1 else y);
          era = y' div 400;
          yoe = y' mod 400;
          mp = (if m > 2 then m - 3 else m + 9);
          doy = (153 * mp + 2) div 5 + d - 1;
          doe = yoe * 365 + yoe div 4 - yoe div 100 + doy
      in era * 146097 + doe - 719468)"

definition day_number :: "civil \<Rightarrow> int" where
  "day_number c = days_from_civil (getFullYear c) (getMonth c + 1) (getDate c)"

definition utc_zone :: "civil \<Rightarrow> int" where
  "utc_zone c = day_number c * DAY + msOfDay c"

definition toronto_2026 :: "civil \<Rightarrow> int" where
  "toronto_2026 c =
     (let local = day_number c * DAY + msOfDay c;
          dst_from = days_from_civil 2026 3 8 * DAY + 3 * 3600000;
          dst_until = days_from_civil 2026 11 1 * DAY + 2 * 3600000
      in if dst_from \<le> local \<and> local < dst_until then local + 4 * 3600000
         else local + 5 * 3600000)"

text \<open>\<open>d.setHours(0, 0, 0, 0)\<close>: an invalid Date stays invalid.\<close>

fun setHours0 :: "jsdate \<Rightarrow> jsdate" where
  "setHours0 InvalidDate = InvalidDate"
| "setHours0 (ValidDate c) = ValidDate (c\<lparr>msOfDay := 0\<rparr>)"

fun year_of :: "jsdate \<Rightarrow> jsnum" where
  "year_of InvalidDate = NaN"
| "year_of (ValidDate c) = Num (getFullYear c)"

fun month_of :: "jsdate \<Rightarrow> jsnum" where
  "month_of InvalidDate = NaN"
| "month_of (ValidDate c) = Num (getMonth c)"

text \<open>
  \<^verbatim>\<open>
  function monthsBetween(d1, d2) {
    if (!d1 || !d2) return null;
    const m = (d2.getFullYear() - d1.getFullYear()) * 12 + (d2.getMonth() - d1.getMonth());
    return m;
  }
  \<close>
  Both copies of the function (the report page and the policy page) are this text.
\<close>

definition monthsBetween :: "jsdate option \<Rightarrow> jsdate option \<Rightarrow> jsnum option" where
  "monthsBetween d1 d2 =
     (case (d1, d2) of
        (Some a, Some b) \<Rightarrow>
          Some (num_add (num_mul (num_sub (year_of b) (year_of a)) (Num 12))
                        (num_sub (month_of b) (month_of a)))
      | _ \<Rightarrow> None)"

text \<open>
  \<open>new Date(string)\<close> and \<open>Date.parse(string)\<close> are the engine's, not the repository's:
  every function that parses takes the constructor as its first argument
  \<open>P :: string \<Rightarrow> jsdate\<close>, with \<open>Date.parse s\<close> being \<open>NaN\<close> exactly when \<open>P s\<close> is
  invalid. Every general statement is about an arbitrary \<open>P\<close>. The reference instance
  below serves to evaluate concrete examples: it reads two layouts, both as local time
  (\<open>YYYY-MM-DDT00:00:00\<close>, which is what \<open>parseMaybeDate\<close> builds, and \<open>MM/DD/YYYY\<close>),
  and gives an invalid Date on anything else. Engines read more layouts and differ on
  a day beyond the month's length; the examples use it only on existing dates in these
  two layouts, on a month out of range and on text without digits.
\<close>

definition is_digit :: "char \<Rightarrow> bool" where
  "is_digit c = (48 \<le> (of_char c :: nat) \<and> (of_char c :: nat) \<le> 57)"

definition digits_val :: "string \<Rightarrow> int" where
  "digits_val s = foldl (\<lambda>a c. 10 * a + (int (of_char c) - 48)) 0 s"

definition days_in_month :: "int \<Rightarrow> int \<Rightarrow> int" where
  "days_in_month y m =
     (if m = 2 then (if y mod 4 = 0 \<and> (y mod 100 \<noteq> 0 \<or> y mod 400 = 0) then 29 else 28)
      else if m = 4 \<or> m = 6 \<or> m = 9 \<or> m = 11 then 30 else 31)"

definition make_date :: "string \<Rightarrow> string \<Rightarrow> string \<Rightarrow> jsdate" where
  "make_date ys ms ds =
     (let y = digits_val ys; m = digits_val ms; d = digits_val ds
      in if list_all is_digit (ys @ ms @ ds) \<and> 1 \<le> m \<and> m \<le> 12 \<and> 1 \<le> d \<and> d \<le> days_in_month y m
         then ValidDate \<lparr>getFullYear = y, getMonth = m - 1, getDate = d, msOfDay = 0\<rparr>
         else InvalidDate)"

definition ref_Date :: "string \<Rightarrow> jsdate" where
  "ref_Date s =
     (if length s = 19 \<and> drop 10 s = ''T00:00:00'' \<and> s ! 4 = CHR ''-'' \<and> s ! 7 = CHR ''-''
        then make_date (take 4 s) (take 2 (drop 5 s)) (take 2 (drop 8 s))
      else if length s = 10 \<and> s ! 2 = CHR ''/'' \<and> s ! 5 = CHR ''/''
        then make_date (drop 6 s) (take 2 s) (take 2 (drop 3 s))
      else InvalidDate)"

section \<open>The report\<close>

text \<open>
  Only the properties the reconciliation reads are kept. \<open>policy.header || {}\<close> makes an
  absent header a header with every property absent, and \<open>policy.operators || []\<close>,
  \<open>rep.policies || []\<close> make an absent list the empty list; the records hold the values
  after these defaults.
\<close>

record operator =
  operator_name :: field
  dln :: field
  relationship :: field
  year_of_birth :: field
  start_term :: field
  end_term :: field

record policy_header =
  policyholder_name :: field
  effective_date :: field
  expiry_date :: field
  cancellation_date :: field
  end_of_latest_term :: field

record policy =
  header :: policy_header
  operators :: "operator list"
  start_of_earliest_term :: field

record report =
  header_dln :: field
  policies :: "policy list"

section \<open>Headline metrics (renderReport)\<close>

text \<open>
  The element \<open>#daysToExpiry\<close>: its text and its class list. The other headline values
  go through \<open>setText(id, v)\<close>, which writes \<open>v || '-'\<close>. In the source quoted here
  and below, \<open>'-'\<close> stands for the em-dash.
\<close>

record element =
  textContent :: string
  classList :: "string list"

definition classList_remove :: "string list \<Rightarrow> string list \<Rightarrow> string list" where
  "classList_remove names cl = filter (\<lambda>c. c \<notin> set names) cl"

definition classList_add :: "string \<Rightarrow> string list \<Rightarrow> string list" where
  "classList_add name cl = (if name \<in> set cl then cl else cl @ [name])"

definition setText :: "string \<Rightarrow> string" where
  "setText v = (if v = [] then em_dash else v)"

text \<open>
  \<^verbatim>\<open>
  let yearsContinuousInsuranceDate = '-';           // the em-dash
  let currentInsuranceDate = '-';
  if (policies.length > 0) {
    const lastPolicy = policies[policies.length - 1];
    yearsContinuousInsuranceDate = lastPolicy.start_of_earliest_term || '-';
    const firstPolicy = policies[0];
    let insuranceDate = firstPolicy.start_of_earliest_term;
    if (!insuranceDate || insuranceDate === '-' || insuranceDate === '') {
      const policyHeader = firstPolicy.header || {};
      insuranceDate = policyHeader.effective_date;
    }
    currentInsuranceDate = insuranceDate || '-';
  }
  \<close>
\<close>

definition yearsContinuousInsuranceDate :: "policy list \<Rightarrow> string" where
  "yearsContinuousInsuranceDate ps =
     (if length ps > 0 then or_str (start_of_earliest_term (last ps)) em_dash else em_dash)"

definition currentInsuranceDate :: "policy list \<Rightarrow> string" where
  "currentInsuranceDate ps =
     (case ps of
        [] \<Rightarrow> em_dash
      | firstPolicy # _ \<Rightarrow>
          (let insuranceDate = start_of_earliest_term firstPolicy;
               insuranceDate' =
                 (if \<not> truthy insuranceDate \<or> insuranceDate = Some em_dash \<or> insuranceDate = Some []
                  then effective_date (header firstPolicy) else insuranceDate)
           in or_str insuranceDate' em_dash))"

text \<open>
  \<^verbatim>\<open>
  let currentPolicyExpiry = '-';
  if (policies.length > 0) {
    const latestPolicy = policies[0];
    const policyHeader = latestPolicy.header || {};
    currentPolicyExpiry = policyHeader.end_of_latest_term || policyHeader.expiry_date || '-';
  }
  \<close>
\<close>

definition currentPolicyExpiry :: "policy list \<Rightarrow> string" where
  "currentPolicyExpiry ps =
     (case ps of
        [] \<Rightarrow> em_dash
      | latestPolicy # _ \<Rightarrow>
          or_str (js_or (end_of_latest_term (header latestPolicy))
                        (expiry_date (header latestPolicy))) em_dash)"

text \<open>
  \<^verbatim>\<open>
  if (currentPolicyExpiry && currentPolicyExpiry !== '-') {
    const expiryDate = new Date(currentPolicyExpiry);
    const today = new Date();
    today.setHours(0, 0, 0, 0);
    expiryDate.setHours(0, 0, 0, 0);
    const daysToExpiry = Math.ceil((expiryDate - today) / (1000 * 60 * 60 * 24));
    const daysEl = document.getElementById('daysToExpiry');
    if (daysEl) {
      daysEl.textContent = Math.max(0, daysToExpiry).toString();
      daysEl.classList.remove('expired', 'warning', 'ok');
      if (daysToExpiry < 0) daysEl.classList.add('expired');
      else if (daysToExpiry <= 30) daysEl.classList.add('warning');
      else daysEl.classList.add('ok');
    }
  } else {
    const daysEl = document.getElementById('daysToExpiry');
    if (daysEl) daysEl.textContent = '-';
  }
  \<close>
  \<open>now\<close> is what \<open>new Date()\<close> returns, a valid Date. \<open>Math.ceil(x / DAY)\<close> on an
  integer \<open>x\<close> is \<open>- ((- x) div DAY)\<close>; the result \<open>-0\<close> of the engine is the \<open>0\<close> here, and
  both compare and print alike. The element \<open>#daysToExpiry\<close> is taken to be on
  the page; \<open>daysEl\<close> is its state before the call, and the result its state after.
\<close>

fun ceil_div :: "jsnum \<Rightarrow> int \<Rightarrow> jsnum" where
  "ceil_div (Num a) d = Num (- ((- a) div d))"
| "ceil_div NaN d = NaN"

definition daysToExpiry ::
  "(string \<Rightarrow> jsdate) \<Rightarrow> (civil \<Rightarrow> int) \<Rightarrow> civil \<Rightarrow> string \<Rightarrow> jsnum" where
  "daysToExpiry P tz now cpe =
     (let expiryDate = setHours0 (P cpe);
          today = setHours0 (ValidDate now)
      in ceil_div (num_sub (getTime tz expiryDate) (getTime tz today)) DAY)"

definition expiry_class :: "jsnum \<Rightarrow> string" where
  "expiry_class d =
     (if num_lt d (Num 0) then ''expired''
      else if num_le d (Num 30) then ''warning''
      else ''ok'')"

definition renderDaysToExpiry ::
  "(string \<Rightarrow> jsdate) \<Rightarrow> (civil \<Rightarrow> int) \<Rightarrow> civil \<Rightarrow> string \<Rightarrow> element \<Rightarrow> element" where
  "renderDaysToExpiry P tz now cpe daysEl =
     (if cpe \<noteq> [] \<and> cpe \<noteq> em_dash
      then (let d = daysToExpiry P tz now cpe
            in daysEl\<lparr>textContent := num_toString (Math_max0 d),
                      classList := classList_add (expiry_class d)
                        (classList_remove [''expired'', ''warning'', ''ok''] (classList daysEl))\<rparr>)
      else daysEl\<lparr>textContent := em_dash\<rparr>)"

record headline =
  yearsContinuousInsurance :: string
  currentInsurance :: string
  currentPolicyExpiryDate :: string
  daysToExpiryEl :: element

definition renderReport ::
  "(string \<Rightarrow> jsdate) \<Rightarrow> (civil \<Rightarrow> int) \<Rightarrow> civil \<Rightarrow> report \<Rightarrow> element \<Rightarrow> headline" where
  "renderReport P tz now rep daysEl =
     \<lparr>yearsContinuousInsurance = setText (yearsContinuousInsuranceDate (policies rep)),
      currentInsurance = setText (currentInsuranceDate (policies rep)),
      currentPolicyExpiryDate = setText (currentPolicyExpiry (policies rep)),
      daysToExpiryEl = renderDaysToExpiry P tz now (currentPolicyExpiry (policies rep)) daysEl\<rparr>"

section \<open>Strings: trim, lower case, split, includes\<close>

text \<open>
  White space, for \<open>trim\<close> and for \<open>\s\<close> alike, is ECMAScript's WhiteSpace and
  LineTerminator: U+0009 to U+000D, U+0020, U+00A0, U+1680, U+2000 to U+200A, U+2028,
  U+2029, U+202F, U+205F, U+3000 and U+FEFF, each listed by its UTF-8 encoding.
\<close>

definition white_space :: "string list" where
  "white_space =
     [[CHR 0x09], [CHR 0x0A], [CHR 0x0B], [CHR 0x0C], [CHR 0x0D], [CHR 0x20],
      [CHR 0xC2, CHR 0xA0],
      [CHR 0xE1, CHR 0x9A, CHR 0x80],
      [CHR 0xE2, CHR 0x80, CHR 0x80], [CHR 0xE2, CHR 0x80, CHR 0x81],
      [CHR 0xE2, CHR 0x80, CHR 0x82], [CHR 0xE2, CHR 0x80, CHR 0x83],
      [CHR 0xE2, CHR 0x80, CHR 0x84], [CHR 0xE2, CHR 0x80, CHR 0x85],
      [CHR 0xE2, CHR 0x80, CHR 0x86], [CHR 0xE2, CHR 0x80, CHR 0x87],
      [CHR 0xE2, CHR 0x80, CHR 0x88], [CHR 0xE2, CHR 0x80, CHR 0x89],
      [CHR 0xE2, CHR 0x80, CHR 0x8A],
      [CHR 0xE2, CHR 0x80, CHR 0xA8], [CHR 0xE2, CHR 0x80, CHR 0xA9],
      [CHR 0xE2, CHR 0x80, CHR 0xAF],
      [CHR 0xE2, CHR 0x81, CHR 0x9F],
      [CHR 0xE3, CHR 0x80, CHR 0x80],
      [CHR 0xEF, CHR 0xBB, CHR 0xBF]]"

text \<open>The first of the sequences \<open>ws\<close> that \<open>s\<close> starts with, if any.\<close>

definition ws_at_start :: "string list \<Rightarrow> string \<Rightarrow> string option" where
  "ws_at_start ws s = List.find (\<lambda>w. w \<noteq> [] \<and> take (length w) s = w) ws"

function strip_ws :: "string list \<Rightarrow> string \<Rightarrow> string" where
  "strip_ws ws s =
     (case ws_at_start ws s of
        None \<Rightarrow> s
      | Some w \<Rightarrow> strip_ws ws (drop (length w) s))"
  by pat_completeness auto
termination
proof (relation "measure (\<lambda>(ws, s). length s)")
  show "wf (measure (\<lambda>(ws :: string list, s :: string). length s))" by simp
next
  fix ws :: "string list" and s w :: string
  assume "ws_at_start ws s = Some w"
  then have w: "w \<noteq> []" "take (length w) s = w"
    by (auto simp: ws_at_start_def find_Some_iff)
  from w(2) have "length (take (length w) s) = length w" by simp
  then have "length w \<le> length s" by simp
  with w(1) have "length s - length w < length s" by (cases w) auto
  then show "((ws, drop (length w) s), (ws, s)) \<in> measure (\<lambda>(ws, s). length s)" by simp
qed

declare strip_ws.simps [simp del]

text \<open>\<open>s.trim()\<close>: white space is stripped at the start, then at the end.\<close>

definition trim :: "string \<Rightarrow> string" where
  "trim s = rev (strip_ws (map rev white_space) (rev (strip_ws white_space s)))"

text \<open>
  \<open>s.toLowerCase()\<close> is the engine's Unicode lower-casing: the functions that call it
  take it as their first argument \<open>lower :: string \<Rightarrow> string\<close>, and nothing is assumed
  about it. The reference instance below lowers \<open>A\<close>..\<open>Z\<close> and serves to evaluate
  concrete examples on ASCII text, where it is what the engine does.
\<close>

definition ascii_lower :: "string \<Rightarrow> string" where
  "ascii_lower s =
     map (\<lambda>c. if 65 \<le> (of_char c :: nat) \<and> (of_char c :: nat) \<le> 90
              then char_of ((of_char c :: nat) + 32) else c) s"

text \<open>
  \<open>s.split(/\s+/)\<close>: the pieces between maximal runs of white space; a leading or
  trailing run leaves an empty piece, and the empty string gives one empty piece.
  \<open>cur\<close> is the piece being read, reversed; \<open>insep\<close> says that the last character
  was white space.
\<close>

function split_ws_from :: "string \<Rightarrow> bool \<Rightarrow> string \<Rightarrow> string list" where
  "split_ws_from cur insep s =
     (case s of
        [] \<Rightarrow> [rev cur]
      | c # cs \<Rightarrow>
          (case ws_at_start white_space s of
             Some w \<Rightarrow>
               (if insep then split_ws_from cur True (drop (length w) s)
                else rev cur # split_ws_from [] True (drop (length w) s))
           | None \<Rightarrow> split_ws_from (c # cur) False cs))"
  by pat_completeness auto
termination
proof (relation "measure (\<lambda>(cur, insep, s). length s)")
  show "wf (measure (\<lambda>(cur :: string, insep :: bool, s :: string). length s))" by simp
next
  fix cur s cs w :: string and insep :: bool and c :: char
  assume "s = c # cs" and "ws_at_start white_space s = Some w" and "insep"
  then have w: "w \<noteq> []" "take (length w) s = w"
    by (auto simp: ws_at_start_def find_Some_iff)
  from w(2) have "length (take (length w) s) = length w" by simp
  then have "length w \<le> length s" by simp
  with w(1) have "length s - length w < length s" by (cases w) auto
  then show "((cur, True, drop (length w) s), (cur, insep, s)) \<in>
      measure (\<lambda>(cur, insep, s). length s)" by simp
next
  fix cur s cs w :: string and insep :: bool and c :: char
  assume "s = c # cs" and "ws_at_start white_space s = Some w" and "\<not> insep"
  then have w: "w \<noteq> []" "take (length w) s = w"
    by (auto simp: ws_at_start_def find_Some_iff)
  from w(2) have "length (take (length w) s) = length w" by simp
  then have "length w \<le> length s" by simp
  with w(1) have "length s - length w < length s" by (cases w) auto
  then show "(([], True, drop (length w) s), (cur, insep, s)) \<in>
      measure (\<lambda>(cur, insep, s). length s)" by simp
next
  fix cur s cs :: string and insep :: bool and c :: char
  assume "s = c # cs"
  then show "((c # cur, False, cs), (cur, insep, s)) \<in>
      measure (\<lambda>(cur, insep, s). length s)" by simp
qed

declare split_ws_from.simps [simp del]

definition split_ws :: "string \<Rightarrow> string list" where
  "split_ws s = split_ws_from [] False s"

text \<open>\<open>s.includes(part)\<close>: \<open>part\<close> occurs in \<open>s\<close> at some offset.\<close>

definition str_includes :: "string \<Rightarrow> string \<Rightarrow> bool" where
  "str_includes s part = list_ex (\<lambda>i. take (length part) (drop i s) = part) [0..<Suc (length s)]"

section \<open>parseMaybeDate\<close>

text \<open>
  \<^verbatim>\<open>
  function parseMaybeDate(s) {
    if (!s) return null;
    const mmddyyyy = s.match(/\b(\d{2})\/(\d{2})\/(\d{4})\b/);
    if (mmddyyyy) return new Date(`${mmddyyyy[3]}-${mmddyyyy[1]}-${mmddyyyy[2]}T00:00:00`);
    const m = s.match(/\b(\d{4})-(\d{2})-(\d{2})\b/);
    if (m) return new Date(`${m[1]}-${m[2]}-${m[3]}T00:00:00`);
    const t = Date.parse(s);
    return isNaN(t) ? null : new Date(t);
  }
  \<close>
  Both patterns have a fixed length, so a match is decided by its start offset, and
  \<open>match\<close> returns the leftmost one. \<open>\d\<close> is an ASCII digit, \<open>\w\<close> is
  \<open>[A-Za-z0-9_]\<close>, and \<open>\b\<close> holds at an offset when exactly one of the characters
  before and after it is a \<open>\w\<close> character.
\<close>

definition is_word_char :: "char \<Rightarrow> bool" where
  "is_word_char c =
     (let n = (of_char c :: nat)
      in (48 \<le> n \<and> n \<le> 57) \<or> (65 \<le> n \<and> n \<le> 90) \<or> (97 \<le> n \<and> n \<le> 122) \<or> n = 95)"

definition word_at :: "string \<Rightarrow> nat \<Rightarrow> bool" where
  "word_at s i = (i < length s \<and> is_word_char (s ! i))"

definition word_boundary :: "string \<Rightarrow> nat \<Rightarrow> bool" where
  "word_boundary s i = ((0 < i \<and> word_at s (i - 1)) \<noteq> word_at s i)"

definition digits_at :: "string \<Rightarrow> nat \<Rightarrow> nat \<Rightarrow> bool" where
  "digits_at s i n = (i + n \<le> length s \<and> list_all is_digit (take n (drop i s)))"

definition char_at :: "string \<Rightarrow> nat \<Rightarrow> char \<Rightarrow> bool" where
  "char_at s i c = (i < length s \<and> s ! i = c)"

definition mdy_at :: "string \<Rightarrow> nat \<Rightarrow> bool" where
  "mdy_at s i =
     (word_boundary s i \<and> digits_at s i 2 \<and> char_at s (i + 2) CHR ''/'' \<and>
      digits_at s (i + 3) 2 \<and> char_at s (i + 5) CHR ''/'' \<and>
      digits_at s (i + 6) 4 \<and> word_boundary s (i + 10))"

definition ymd_at :: "string \<Rightarrow> nat \<Rightarrow> bool" where
  "ymd_at s i =
     (word_boundary s i \<and> digits_at s i 4 \<and> char_at s (i + 4) CHR ''-'' \<and>
      digits_at s (i + 5) 2 \<and> char_at s (i + 7) CHR ''-'' \<and>
      digits_at s (i + 8) 2 \<and> word_boundary s (i + 10))"

definition regex_search :: "(string \<Rightarrow> nat \<Rightarrow> bool) \<Rightarrow> string \<Rightarrow> nat option" where
  "regex_search pat s = List.find (pat s) [0..<Suc (length s)]"

definition iso_local :: "string \<Rightarrow> string \<Rightarrow> string \<Rightarrow> string" where
  "iso_local y m d = y @ ''-'' @ m @ ''-'' @ d @ ''T00:00:00''"

definition parseMaybeDate :: "(string \<Rightarrow> jsdate) \<Rightarrow> field \<Rightarrow> jsdate option" where
  "parseMaybeDate P v =
     (case v of
        None \<Rightarrow> None
      | Some s \<Rightarrow>
          if s = [] then None
          else (case regex_search mdy_at s of
                  Some i \<Rightarrow>
                    Some (P (iso_local (take 4 (drop (i + 6) s)) (take 2 (drop i s))
                                       (take 2 (drop (i + 3) s))))
                | None \<Rightarrow>
                    (case regex_search ymd_at s of
                       Some i \<Rightarrow>
                         Some (P (iso_local (take 4 (drop i s)) (take 2 (drop (i + 5) s))
                                            (take 2 (drop (i + 8) s))))
                     | None \<Rightarrow> (if P s = InvalidDate then None else Some (P s)))))"

text \<open>
  \<^verbatim>\<open>
  function formatDateToMMDDYYYY(dateObj) {
    if (!dateObj) return '-';
    const month = String(dateObj.getMonth() + 1).padStart(2, '0');
    const day = String(dateObj.getDate()).padStart(2, '0');
    const year = dateObj.getFullYear();
    return `${month}/${day}/${year}`;
  }
  \<close>
\<close>

fun day_of :: "jsdate \<Rightarrow> jsnum" where
  "day_of InvalidDate = NaN"
| "day_of (ValidDate c) = Num (getDate c)"

definition padStart2 :: "string \<Rightarrow> string" where
  "padStart2 s = replicate (2 - length s) CHR ''0'' @ s"

definition formatDateToMMDDYYYY :: "jsdate option \<Rightarrow> string" where
  "formatDateToMMDDYYYY dateObj =
     (case dateObj of
        None \<Rightarrow> em_dash
      | Some d \<Rightarrow>
          padStart2 (num_toString (num_add (month_of d) (Num 1))) @ ''/'' @
          padStart2 (num_toString (day_of d)) @ ''/'' @ num_toString (year_of d))"

section \<open>Matching an operator by licence number\<close>

text \<open>
  The policy page (renderPolicyFull):
  \<^verbatim>\<open>
  const mainDriverDln = (report.header?.dln || '').trim();
  let mainOp = null;
  const ops = policy.operators || [];
  for (let i = 0; i < ops.length; i++) {
    if ((ops[i].dln || '').trim() === mainDriverDln) { mainOp = ops[i]; break; }
  }
  \<close>
  The same loop is run a second time there under the name \<open>matchingOp\<close>.
\<close>

fun mainOp_loop :: "string \<Rightarrow> operator list \<Rightarrow> operator option" where
  "mainOp_loop mainDriverDln [] = None"
| "mainOp_loop mainDriverDln (op # ops) =
     (if trim (or_str (dln op) []) = mainDriverDln then Some op
      else mainOp_loop mainDriverDln ops)"

definition mainOp :: "field \<Rightarrow> operator list \<Rightarrow> operator option" where
  "mainOp header_dln_v ops = mainOp_loop (trim (or_str header_dln_v [])) ops"

text \<open>
  The report page (renderPolicies):
  \<^verbatim>\<open>
  if (driverDLN) {
    let dlnMatchedOp = ops.find(o => o && o.dln === driverDLN);
    ...
  \<close>
\<close>

definition dlnMatchedOp :: "field \<Rightarrow> operator list \<Rightarrow> operator option" where
  "dlnMatchedOp driverDLN ops =
     (if truthy driverDLN then List.find (\<lambda>op. dln op = driverDLN) ops else None)"

section \<open>Matching an operator by policyholder name (renderPolicies)\<close>

text \<open>
  \<^verbatim>\<open>
  const policyholderName = (h.policyholder_name || '').trim().toLowerCase();
  const policyholderParts = policyholderName.split(/\s+/).filter(p => p.length > 0 && p !== 'and');
  let matchedOp = ops.find(o => o.operator_name && o.operator_name.trim().toLowerCase() === policyholderName);
  if (!matchedOp && policyholderParts.length > 0) {
    matchedOp = ops.find(o => {
      if (!o.operator_name) return false;
      const opNameLower = o.operator_name.trim().toLowerCase();
      return policyholderParts.every(part => opNameLower.includes(part));
    });
  }
  const displayOp = matchedOp?.operator_name || (ops[0]?.operator_name || '-');
  const displayYearOfBirth = matchedOp?.year_of_birth || '-';
  \<close>
\<close>

definition policyholderName :: "(string \<Rightarrow> string) \<Rightarrow> policy_header \<Rightarrow> string" where
  "policyholderName lower h = lower (trim (or_str (policyholder_name h) []))"

definition policyholderParts :: "(string \<Rightarrow> string) \<Rightarrow> policy_header \<Rightarrow> string list" where
  "policyholderParts lower h =
     filter (\<lambda>p. length p > 0 \<and> p \<noteq> ''and'') (split_ws (policyholderName lower h))"

definition opNameLower :: "(string \<Rightarrow> string) \<Rightarrow> operator \<Rightarrow> string" where
  "opNameLower lower op = lower (trim (or_str (operator_name op) []))"

definition exact_name :: "(string \<Rightarrow> string) \<Rightarrow> policy_header \<Rightarrow> operator \<Rightarrow> bool" where
  "exact_name lower h op =
     (truthy (operator_name op) \<and> opNameLower lower op = policyholderName lower h)"

definition every_part :: "(string \<Rightarrow> string) \<Rightarrow> policy_header \<Rightarrow> operator \<Rightarrow> bool" where
  "every_part lower h op =
     (if \<not> truthy (operator_name op) then False
      else list_all (\<lambda>part. str_includes (opNameLower lower op) part)
             (policyholderParts lower h))"

definition matchedOp ::
  "(string \<Rightarrow> string) \<Rightarrow> policy_header \<Rightarrow> operator list \<Rightarrow> operator option" where
  "matchedOp lower h ops =
     (case List.find (exact_name lower h) ops of
        Some op \<Rightarrow> Some op
      | None \<Rightarrow>
          (if length (policyholderParts lower h) > 0
           then List.find (every_part lower h) ops else None))"

definition opt_field :: "operator option \<Rightarrow> (operator \<Rightarrow> field) \<Rightarrow> field" where
  "opt_field op f = (case op of None \<Rightarrow> None | Some x \<Rightarrow> f x)"

definition first_op :: "operator list \<Rightarrow> operator option" where
  "first_op ops = (case ops of [] \<Rightarrow> None | op # _ \<Rightarrow> Some op)"

definition displayOp :: "(string \<Rightarrow> string) \<Rightarrow> policy_header \<Rightarrow> operator list \<Rightarrow> string" where
  "displayOp lower h ops =
     or_str (js_or (opt_field (matchedOp lower h ops) operator_name)
                   (opt_field (first_op ops) operator_name)) em_dash"

definition displayYearOfBirth ::
  "(string \<Rightarrow> string) \<Rightarrow> policy_header \<Rightarrow> operator list \<Rightarrow> string" where
  "displayYearOfBirth lower h ops =
     or_str (opt_field (matchedOp lower h ops) year_of_birth) em_dash"

text \<open>
  The name match as the specification words it, for comparison with \<open>matchedOp\<close>:
  an exact hit, else the first operator whose lower-cased name contains every token.
\<close>

definition spec_matchByName ::
  "(string \<Rightarrow> string) \<Rightarrow> policy_header \<Rightarrow> operator list \<Rightarrow> operator option" where
  "spec_matchByName lower h ops =
     (case List.find (exact_name lower h) ops of
        Some op \<Rightarrow> Some op
      | None \<Rightarrow> List.find (every_part lower h) ops)"

section \<open>Start of earliest term\<close>

text \<open>
  The report page (renderPolicies):
  \<^verbatim>\<open>
  let displayStartTerm = '-';
  if (policy.start_of_earliest_term) displayStartTerm = policy.start_of_earliest_term;
  if (driverDLN) {
    let dlnMatchedOp = ops.find(o => o && o.dln === driverDLN);
    if (dlnMatchedOp) {
      ...
      if (!policy.start_of_earliest_term && dlnMatchedOp.start_term) {
        const startTermParsed = parseMaybeDate(dlnMatchedOp.start_term);
        displayStartTerm = startTermParsed ? formatDateToMMDDYYYY(startTermParsed)
                                           : dlnMatchedOp.start_term;
      }
    }
  }
  \<close>
\<close>

definition shown_term :: "(string \<Rightarrow> jsdate) \<Rightarrow> field \<Rightarrow> string" where
  "shown_term P term =
     (case parseMaybeDate P term of
        Some d \<Rightarrow> formatDateToMMDDYYYY (Some d)
      | None \<Rightarrow> or_str term [])"

definition rp_displayStartTerm :: "(string \<Rightarrow> jsdate) \<Rightarrow> field \<Rightarrow> policy \<Rightarrow> string" where
  "rp_displayStartTerm P driverDLN policy =
     (let displayStartTerm =
            (if truthy (start_of_earliest_term policy)
             then or_str (start_of_earliest_term policy) em_dash else em_dash)
      in case dlnMatchedOp driverDLN (operators policy) of
           None \<Rightarrow> displayStartTerm
         | Some op \<Rightarrow>
             if \<not> truthy (start_of_earliest_term policy) \<and> truthy (start_term op)
             then shown_term P (start_term op)
             else displayStartTerm)"

text \<open>
  The policy page (renderPolicyFull):
  \<^verbatim>\<open>
  let displayStartTerm = '-';
  if (matchingOp && (matchingOp.start_term || matchingOp.end_term)) {
    displayStartTerm = matchingOp.start_term || '-';
  } else {
    const anyOpWithTerms = ops.find(o => o && (o.start_term || o.end_term));
    if (anyOpWithTerms) displayStartTerm = anyOpWithTerms.start_term || '-';
    else displayStartTerm = h.effective_date || '-';
  }
  \<close>
\<close>

definition has_terms :: "operator \<Rightarrow> bool" where
  "has_terms op = (truthy (start_term op) \<or> truthy (end_term op))"

text \<open>
  The policy page shows the start term a second time, in the dates row at the top:
  \<^verbatim>\<open>
  let chosenOp = null;
  if (mainOp && (mainOp.end_term || mainOp.start_term)) chosenOp = mainOp;
  else if (ops && ops.length) chosenOp = ops.find(o => o && (o.end_term || o.start_term)) || null;
  ...
  startEarliest.textContent = (chosenOp && chosenOp.start_term) ? chosenOp.start_term
                                                                : (h.effective_date || '-');
  \<close>
\<close>

definition chosenOp :: "field \<Rightarrow> policy \<Rightarrow> operator option" where
  "chosenOp header_dln_v policy =
     (case mainOp header_dln_v (operators policy) of
        Some m \<Rightarrow> if has_terms m then Some m else List.find has_terms (operators policy)
      | None \<Rightarrow> List.find has_terms (operators policy))"

definition startEarliest :: "field \<Rightarrow> policy \<Rightarrow> string" where
  "startEarliest header_dln_v policy =
     (if truthy (opt_field (chosenOp header_dln_v policy) start_term)
      then or_str (opt_field (chosenOp header_dln_v policy) start_term) em_dash
      else or_str (effective_date (header policy)) em_dash)"

definition rpf_displayStartTerm :: "field \<Rightarrow> policy \<Rightarrow> string" where
  "rpf_displayStartTerm header_dln_v policy =
     (let ops = operators policy; h = header policy;
          anyOpWithTerms = List.find has_terms ops
      in case mainOp header_dln_v ops of
           Some matchingOp \<Rightarrow>
             if has_terms matchingOp then or_str (start_term matchingOp) em_dash
             else (case anyOpWithTerms of
                     Some a \<Rightarrow> or_str (start_term a) em_dash
                   | None \<Rightarrow> or_str (effective_date h) em_dash)
         | None \<Rightarrow>
             (case anyOpWithTerms of
                Some a \<Rightarrow> or_str (start_term a) em_dash
              | None \<Rightarrow> or_str (effective_date h) em_dash))"

text \<open>
  The chain as the specification words it, for comparison with the two above: the
  policy's own \<open>start_of_earliest_term\<close>, the matched operator's \<open>start_term\<close>, the
  \<open>start_term\<close> of the first operator that has one, the header's \<open>effective_date\<close>,
  the sentinel.
\<close>

definition spec_start_chain :: "policy \<Rightarrow> operator option \<Rightarrow> string" where
  "spec_start_chain policy matched =
     or_str (js_or (start_of_earliest_term policy)
              (js_or (opt_field matched start_term)
                 (js_or (opt_field (List.find (\<lambda>op. truthy (start_term op)) (operators policy))
                                   start_term)
                        (effective_date (header policy))))) em_dash"

section \<open>Policy numbers (renderPolicies)\<close>

text \<open>
  \<^verbatim>\<open>
  const reversed = [...policies].reverse();
  reversed.forEach((policy, reversedIdx) => {
    const totalPolicies = reversed.length;
    const policyNum = totalPolicies - reversedIdx;
    ...
    badge.textContent = policyNum;
  \<close>
  \<open>reverse\<close> reverses an array in place. The two arrays of the function are kept in a
  store, so that which of them is reversed is part of the model.
\<close>

datatype array_name = Policies | Reversed

type_synonym arrays = "array_name \<Rightarrow> policy list"

definition spread_into :: "array_name \<Rightarrow> array_name \<Rightarrow> arrays \<Rightarrow> arrays" where
  "spread_into dst src st = st(dst := st src)"

definition reverse_in_place :: "array_name \<Rightarrow> arrays \<Rightarrow> arrays" where
  "reverse_in_place a st = st(a := rev (st a))"

definition renderPolicies_arrays :: "policy list \<Rightarrow> arrays" where
  "renderPolicies_arrays policies_v =
     reverse_in_place Reversed (spread_into Reversed Policies ((\<lambda>_. [])(Policies := policies_v)))"

definition policy_badges :: "policy list \<Rightarrow> (nat \<times> policy) list" where
  "policy_badges policies_v =
     (let reversed = renderPolicies_arrays policies_v Reversed;
          totalPolicies = length reversed
      in map (\<lambda>reversedIdx. (totalPolicies - reversedIdx, reversed ! reversedIdx))
             [0..<length reversed])"

section \<open>Gap badges (renderPolicyFull)\<close>

text \<open>
  \<^verbatim>\<open>
  const endDate = parseMaybeDate(h.expiry_date || h.cancellation_date);
  const startDate = parseMaybeDate(h.effective_date);
  let gapMsg = '';
  if (endDate && startDate){
    const months = monthsBetween(endDate, startDate);
    if (months > 0) gapMsg = `Coverage Gap - ${months} month${months === 1 ? '' : 's'}`;
    else if (months === 0) gapMsg = `No Coverage Gap`;
    else gapMsg = `Overlap - ${Math.abs(months)} month${Math.abs(months) === 1 ? '' : 's'}`;
  }
  \<close>
  (the dash of the messages is the em-dash). The badge against the previous policy,
  \<open>interMsg\<close>, is the same text with \<open> vs Prev Policy\<close> after the first words, on
  the previous policy's end and this policy's start; nothing is shown when either date
  is \<open>null\<close>.
\<close>

definition plural :: "jsnum \<Rightarrow> string" where
  "plural n = (if num_eq n (Num 1) then [] else ''s'')"

definition gap_text :: "string \<Rightarrow> jsnum \<Rightarrow> string" where
  "gap_text suffix months =
     (if num_gt months (Num 0)
        then ''Coverage Gap'' @ suffix @ '' '' @ em_dash @ '' '' @ num_toString months @
             '' month'' @ plural months
      else if num_eq months (Num 0) then ''No Coverage Gap'' @ suffix
      else ''Overlap'' @ suffix @ '' '' @ em_dash @ '' '' @ num_toString (Math_abs months) @
           '' month'' @ plural (Math_abs months))"

definition gapMsg :: "(string \<Rightarrow> jsdate) \<Rightarrow> policy_header \<Rightarrow> string" where
  "gapMsg P h =
     (let endDate = parseMaybeDate P (js_or (expiry_date h) (cancellation_date h));
          startDate = parseMaybeDate P (effective_date h)
      in case monthsBetween endDate startDate of
           None \<Rightarrow> []
         | Some months \<Rightarrow> gap_text [] months)"

definition interMsg :: "(string \<Rightarrow> jsdate) \<Rightarrow> policy_header \<Rightarrow> policy_header \<Rightarrow> string option" where
  "interMsg P prev h =
     (let prevEnd = parseMaybeDate P (js_or (expiry_date prev) (cancellation_date prev));
          curStart = parseMaybeDate P (effective_date h)
      in case monthsBetween prevEnd curStart of
           None \<Rightarrow> None
         | Some m \<Rightarrow> Some (gap_text '' vs Prev Policy'' m))"

section \<open>Months between two dates\<close>

text \<open>
  C7. For two parsed (valid) dates, \<open>monthsBetween d1 d2\<close> is the integer
  \<open>(year2 - year1) * 12 + (month2 - month1)\<close>, and it does not depend on the day of the
  month or the time of day of either date: replacing them by any other values leaves
  the result unchanged.
\<close>

theorem monthsBetween_calendar_months:
  "monthsBetween (Some (ValidDate a)) (Some (ValidDate b)) =
     Some (Num ((getFullYear b - getFullYear a) * 12 + (getMonth b - getMonth a)))
   \<and> monthsBetween (Some (ValidDate (a\<lparr>getDate := x, msOfDay := t\<rparr>)))
                   (Some (ValidDate (b\<lparr>getDate := y, msOfDay := u\<rparr>))) =
     monthsBetween (Some (ValidDate a)) (Some (ValidDate b))"
  by (simp add: monthsBetween_def)

theorem monthsBetween_calendar_months_witness:
  "monthsBetween
     (Some (ValidDate \<lparr>getFullYear = 2023, getMonth = 0, getDate = 31, msOfDay = 0\<rparr>))
     (Some (ValidDate \<lparr>getFullYear = 2023, getMonth = 1, getDate = 1, msOfDay = 0\<rparr>)) =
   Some (Num 1)"
  using monthsBetween_calendar_months
    [of "\<lparr>getFullYear = 2023, getMonth = 0, getDate = 31, msOfDay = 0\<rparr>"
        "\<lparr>getFullYear = 2023, getMonth = 1, getDate = 1, msOfDay = 0\<rparr>"]
  by simp


section \<open>Headline metrics: days to expiry\<close>

lemma nat_digits_0: "nat_digits 0 = ''0''"
  by code_simp

lemma daysToExpiry_valid:
  "P cpe = ValidDate e \<Longrightarrow>
   daysToExpiry P tz now cpe =
     Num (- ((- (tz (e\<lparr>msOfDay := 0\<rparr>) - tz (now\<lparr>msOfDay := 0\<rparr>))) div DAY))"
  by (simp add: daysToExpiry_def Let_def)

lemma whole_days_fixed_offset:
  assumes "\<forall>c. tz c = day_number c * DAY + msOfDay c + off"
  shows "- ((- (tz (e\<lparr>msOfDay := 0\<rparr>) - tz (now\<lparr>msOfDay := 0\<rparr>))) div DAY) =
         day_number e - day_number now"
proof -
  have "tz (e\<lparr>msOfDay := 0\<rparr>) - tz (now\<lparr>msOfDay := 0\<rparr>) = (day_number e - day_number now) * DAY"
    using assms by (simp add: day_number_def algebra_simps)
  then show ?thesis by (simp add: DAY_def)
qed

lemma daysToExpiry_invalid:
  "P cpe = InvalidDate \<Longrightarrow> daysToExpiry P tz now cpe = NaN"
  by (simp add: daysToExpiry_def Let_def)

lemma currentPolicyExpiry_nonempty: "currentPolicyExpiry ps \<noteq> []"
  by (simp add: currentPolicyExpiry_def or_str_def em_dash_def split: list.splits option.splits)

lemma currentPolicyExpiry_chain:
  "currentPolicyExpiry (p # ps) =
     (if truthy (end_of_latest_term (header p)) then the (end_of_latest_term (header p))
      else if truthy (expiry_date (header p)) then the (expiry_date (header p))
      else em_dash)"
  by (auto simp: currentPolicyExpiry_def js_or_def or_str_def truthy_def split: option.splits)

lemma one_expiry_class:
  "filter (\<lambda>x. x \<in> set [''expired'', ''warning'', ''ok''])
     (classList_add (expiry_class d) (classList_remove [''expired'', ''warning'', ''ok''] cl)) =
   [expiry_class d]"
  by (auto simp: classList_add_def classList_remove_def filter_empty_conv expiry_class_def)

lemma expired_class_iff:
  "''expired'' \<in> set (classList_add (expiry_class (Num d))
       (classList_remove [''expired'', ''warning'', ''ok''] cl)) \<longleftrightarrow> d < 0"
  by (auto simp: classList_add_def classList_remove_def expiry_class_def)

lemma daysToExpiry_classified:
  assumes "P cpe = ValidDate e" and "cpe \<noteq> []" and "cpe \<noteq> em_dash"
    and "d = - ((- (tz (e\<lparr>msOfDay := 0\<rparr>) - tz (now\<lparr>msOfDay := 0\<rparr>))) div DAY)"
  shows "filter (\<lambda>x. x \<in> set [''expired'', ''warning'', ''ok''])
           (classList (renderDaysToExpiry P tz now cpe el)) =
         [if d < 0 then ''expired'' else if d \<le> 30 then ''warning'' else ''ok'']"
proof -
  have "classList (renderDaysToExpiry P tz now cpe el) =
        classList_add (expiry_class (Num d))
          (classList_remove [''expired'', ''warning'', ''ok''] (classList el))"
    using assms by (simp add: renderDaysToExpiry_def daysToExpiry_valid Let_def)
  then show ?thesis
    using one_expiry_class[of "Num d" "classList el"] by (simp add: expiry_class_def)
qed

lemma expiry_today_is_warning:
  assumes "P cpe = ValidDate e" and "cpe \<noteq> []" and "cpe \<noteq> em_dash"
    and "getFullYear e = getFullYear now" and "getMonth e = getMonth now" and "getDate e = getDate now"
  shows "daysToExpiry P tz now cpe = Num 0
       \<and> textContent (renderDaysToExpiry P tz now cpe el) = ''0''
       \<and> filter (\<lambda>x. x \<in> set [''expired'', ''warning'', ''ok''])
           (classList (renderDaysToExpiry P tz now cpe el)) = [''warning'']"
proof -
  have "e\<lparr>msOfDay := 0\<rparr> = now\<lparr>msOfDay := 0\<rparr>" using assms(4-6) by simp
  then have d: "- ((- (tz (e\<lparr>msOfDay := 0\<rparr>) - tz (now\<lparr>msOfDay := 0\<rparr>))) div DAY) = 0" by simp
  have 1: "daysToExpiry P tz now cpe = Num 0"
    using daysToExpiry_valid[where P = P and cpe = cpe and e = e and tz = tz and now = now]
      assms(1) d by simp
  have 2: "textContent (renderDaysToExpiry P tz now cpe el) = ''0''"
    using assms(2,3) 1 by (simp add: renderDaysToExpiry_def Let_def nat_digits_0)
  have 3: "filter (\<lambda>x. x \<in> set [''expired'', ''warning'', ''ok''])
           (classList (renderDaysToExpiry P tz now cpe el)) = [''warning'']"
    using daysToExpiry_classified[where P = P and cpe = cpe and e = e and tz = tz and now = now
        and el = el and d = 0] assms(1-3) d by simp
  show ?thesis using 1 2 3 by simp
qed

lemma missing_expiry_dash:
  "cpe = em_dash \<Longrightarrow> renderDaysToExpiry P tz now cpe el = el\<lparr>textContent := em_dash\<rparr>"
  by (simp add: renderDaysToExpiry_def)

text \<open>
  C1. The headline expiry is the first policy's \<open>end_of_latest_term\<close>, else its
  \<open>expiry_date\<close> (\<open>currentPolicyExpiry_chain\<close>); a readable expiry gives the rounded-up
  number of days between the two local midnights, which is the difference of the day
  numbers when the zone has a fixed offset, and one class by its range, with 0 and
  \<open>warning\<close> when the expiry is today (\<open>daysToExpiry_valid\<close>,
  \<open>whole_days_fixed_offset\<close>, \<open>daysToExpiry_classified\<close>, \<open>expiry_today_is_warning\<close>); an
  absent expiry shows the em-dash (\<open>missing_expiry_dash\<close>). The last part of the claim
  fails: an expiry text that is present but that \<open>new Date\<close> cannot read is not left
  unclassified and is not shown as the em-dash. The difference is \<open>NaN\<close>, both
  comparisons are false, and the element shows \<open>NaN\<close> with the class \<open>ok\<close>.
\<close>

theorem unparseable_expiry_shows_NaN_ok:
  assumes "P cpe = InvalidDate" and "cpe \<noteq> []" and "cpe \<noteq> em_dash"
  shows "textContent (renderDaysToExpiry P tz now cpe el) = ''NaN''
         \<and> filter (\<lambda>x. x \<in> set [''expired'', ''warning'', ''ok''])
              (classList (renderDaysToExpiry P tz now cpe el)) = [''ok'']"
proof -
  have "renderDaysToExpiry P tz now cpe el =
        el\<lparr>textContent := ''NaN'',
           classList := classList_add (expiry_class NaN)
             (classList_remove [''expired'', ''warning'', ''ok''] (classList el))\<rparr>"
    using assms by (simp add: renderDaysToExpiry_def daysToExpiry_invalid Let_def)
  then show ?thesis
    using one_expiry_class[of NaN "classList el"] by (simp add: expiry_class_def)
qed

theorem unparseable_expiry_shows_NaN_ok_witness:
  "daysToExpiryEl (renderReport ref_Date utc_zone
       \<lparr>getFullYear = 2026, getMonth = 10, getDate = 3, msOfDay = 36000000\<rparr>
       \<lparr>header_dln = None,
        policies = [\<lparr>header = \<lparr>policyholder_name = None, effective_date = None,
                               expiry_date = Some ''N/A'', cancellation_date = None,
                               end_of_latest_term = None\<rparr>,
                     operators = [], start_of_earliest_term = None\<rparr>]\<rparr>
       \<lparr>textContent = [], classList = []\<rparr>) = \<lparr>textContent = ''NaN'', classList = [''ok'']\<rparr>"
proof -
  have 1: "ref_Date ''N/A'' = InvalidDate" by (simp add: ref_Date_def)
  have 2: "''N/A'' \<noteq> em_dash" by (simp add: em_dash_def)
  have "textContent (renderDaysToExpiry ref_Date utc_zone
       \<lparr>getFullYear = 2026, getMonth = 10, getDate = 3, msOfDay = 36000000\<rparr> ''N/A''
       \<lparr>textContent = [], classList = []\<rparr>) = ''NaN''"
    using unparseable_expiry_shows_NaN_ok[where P = ref_Date and cpe = "''N/A''"] 1 2 by simp
  then show ?thesis
    by (simp add: renderReport_def currentPolicyExpiry_def js_or_def truthy_def or_str_def
        renderDaysToExpiry_def em_dash_def expiry_class_def classList_add_def classList_remove_def
        daysToExpiry_def 1)
qed

section \<open>Headline metrics: no policies\<close>

text \<open>
  C9. With an empty policy list, \<open>yearsContinuousInsurance\<close>, \<open>currentInsurance\<close>
  and \<open>currentPolicyExpiryDate\<close> are the em-dash and the days-to-expiry element shows
  the em-dash; nothing is parsed and nothing can fail.
\<close>

theorem empty_policy_list_all_missing:
  "renderReport P tz now \<lparr>header_dln = d, policies = []\<rparr> el =
     \<lparr>yearsContinuousInsurance = em_dash, currentInsurance = em_dash,
      currentPolicyExpiryDate = em_dash, daysToExpiryEl = el\<lparr>textContent := em_dash\<rparr>\<rparr>"
  by (simp add: renderReport_def yearsContinuousInsuranceDate_def currentInsuranceDate_def
      currentPolicyExpiry_def renderDaysToExpiry_def setText_def em_dash_def)

theorem empty_policy_list_all_missing_witness:
  "renderReport ref_Date utc_zone \<lparr>getFullYear = 2026, getMonth = 10, getDate = 3, msOfDay = 0\<rparr>
     \<lparr>header_dln = Some ''D1234'', policies = []\<rparr> \<lparr>textContent = ''12'', classList = [''ok'']\<rparr> =
     \<lparr>yearsContinuousInsurance = em_dash, currentInsurance = em_dash,
      currentPolicyExpiryDate = em_dash,
      daysToExpiryEl = \<lparr>textContent = em_dash, classList = [''ok'']\<rparr>\<rparr>"
  using empty_policy_list_all_missing[of ref_Date utc_zone _ "Some ''D1234''"
      "\<lparr>textContent = ''12'', classList = [''ok'']\<rparr>"]
  by simp

section \<open>Headline metrics: the displayed number of days\<close>

text \<open>
  C10. For an expiry that parses to a valid date, let \<open>d\<close> be the day count the code
  computes: the difference between the time values of the two local midnights, divided
  by 24 hours and rounded up. The number shown is \<open>d\<close> clamped below at 0: when \<open>d\<close> is
  negative the element shows \<open>0\<close>, not the negative count. The class \<open>expired\<close> is on
  the element exactly when \<open>d\<close> is negative, so only the class tells that the policy is
  past its expiry.
\<close>

theorem daysToExpiry_display_clamped:
  assumes "P (currentPolicyExpiry (policies rep)) = ValidDate e"
    and "currentPolicyExpiry (policies rep) \<noteq> em_dash"
    and "d = - ((- (tz (e\<lparr>msOfDay := 0\<rparr>) - tz (now\<lparr>msOfDay := 0\<rparr>))) div DAY)"
  shows "daysToExpiry P tz now (currentPolicyExpiry (policies rep)) = Num d
       \<and> textContent (daysToExpiryEl (renderReport P tz now rep el)) = num_toString (Num (max 0 d))
       \<and> (d < 0 \<longrightarrow> textContent (daysToExpiryEl (renderReport P tz now rep el)) = ''0'')
       \<and> (''expired'' \<in> set (classList (daysToExpiryEl (renderReport P tz now rep el)))
            \<longleftrightarrow> d < 0)"
proof -
  let ?cpe = "currentPolicyExpiry (policies rep)"
  have v: "daysToExpiry P tz now ?cpe = Num d"
    using daysToExpiry_valid[where P = P and cpe = ?cpe and e = e and tz = tz and now = now]
      assms(1,3) by simp
  have r: "daysToExpiryEl (renderReport P tz now rep el) =
        el\<lparr>textContent := num_toString (Num (max 0 d)),
           classList := classList_add (expiry_class (Num d))
             (classList_remove [''expired'', ''warning'', ''ok''] (classList el))\<rparr>"
    using assms(2) v
    by (simp add: renderReport_def renderDaysToExpiry_def currentPolicyExpiry_nonempty Let_def)
  have t: "textContent (daysToExpiryEl (renderReport P tz now rep el)) =
        num_toString (Num (max 0 d))"
    using r by simp
  have z: "d < 0 \<longrightarrow> textContent (daysToExpiryEl (renderReport P tz now rep el)) = ''0''"
    using t by (simp add: nat_digits_0)
  have c: "''expired'' \<in> set (classList (daysToExpiryEl (renderReport P tz now rep el)))
            \<longleftrightarrow> d < 0"
    using r expired_class_iff[of d "classList el"] by simp
  show ?thesis using v t z c by blast
qed

lemma ref_Date_2020: "ref_Date ''01/01/2020'' =
    ValidDate \<lparr>getFullYear = 2020, getMonth = 0, getDate = 1, msOfDay = 0\<rparr>"
  by (simp add: ref_Date_def make_date_def digits_val_def is_digit_def days_in_month_def)

theorem daysToExpiry_display_clamped_witness:
  "textContent (daysToExpiryEl (renderReport ref_Date utc_zone
       \<lparr>getFullYear = 2026, getMonth = 10, getDate = 3, msOfDay = 36000000\<rparr>
       \<lparr>header_dln = None,
        policies = [\<lparr>header = \<lparr>policyholder_name = None, effective_date = None,
                               expiry_date = Some ''01/01/2020'', cancellation_date = None,
                               end_of_latest_term = None\<rparr>,
                     operators = [], start_of_earliest_term = None\<rparr>]\<rparr>
       \<lparr>textContent = [], classList = []\<rparr>)) = ''0''
   \<and> daysToExpiry ref_Date utc_zone
       \<lparr>getFullYear = 2026, getMonth = 10, getDate = 3, msOfDay = 36000000\<rparr> ''01/01/2020'' =
     Num (- 2498)"
proof -
  let ?now = "\<lparr>getFullYear = 2026, getMonth = 10, getDate = 3, msOfDay = 36000000\<rparr>"
  let ?e = "\<lparr>getFullYear = 2020, getMonth = 0, getDate = 1, msOfDay = 0\<rparr>"
  let ?rep = "\<lparr>header_dln = None,
        policies = [\<lparr>header = \<lparr>policyholder_name = None, effective_date = None,
                               expiry_date = Some ''01/01/2020'', cancellation_date = None,
                               end_of_latest_term = None\<rparr>,
                     operators = [], start_of_earliest_term = None\<rparr>]\<rparr>"
  have c: "currentPolicyExpiry (policies ?rep) = ''01/01/2020''"
    by (simp add: currentPolicyExpiry_def js_or_def truthy_def or_str_def)
  have 1: "ref_Date (currentPolicyExpiry (policies ?rep)) = ValidDate ?e"
    using c ref_Date_2020 by simp
  have 2: "currentPolicyExpiry (policies ?rep) \<noteq> em_dash" using c by (simp add: em_dash_def)
  have 3: "- 2498 = - ((- (utc_zone (?e\<lparr>msOfDay := 0\<rparr>) - utc_zone (?now\<lparr>msOfDay := 0\<rparr>))) div DAY)"
    by (simp add: utc_zone_def day_number_def days_from_civil_def DAY_def)
  note th = daysToExpiry_display_clamped[where P = ref_Date and rep = ?rep and e = ?e
        and tz = utc_zone and now = ?now and d = "- 2498"
        and el = "\<lparr>textContent = [], classList = []\<rparr>", OF 1 2 3]
  from th have a: "daysToExpiry ref_Date utc_zone ?now (currentPolicyExpiry (policies ?rep)) =
      Num (- 2498)" by blast
  from th have "(- 2498 :: int) < 0 \<longrightarrow> textContent (daysToExpiryEl (renderReport ref_Date utc_zone
      ?now ?rep \<lparr>textContent = [], classList = []\<rparr>)) = ''0''" by blast
  then have b: "textContent (daysToExpiryEl (renderReport ref_Date utc_zone
      ?now ?rep \<lparr>textContent = [], classList = []\<rparr>)) = ''0''" by simp
  show ?thesis using a b c by simp
qed

text \<open>
  Across a daylight-saving change the count is not the difference of the calendar
  days. In Toronto, an expiry of 8 March 2026 seen on 9 March is 23 hours back: the
  count is 0 and the class is \<open>warning\<close>. An expiry of 2 November 2026 seen on
  1 November is 25 hours ahead: the count is 2.
\<close>

lemma spring_forward_example:
  "renderDaysToExpiry ref_Date toronto_2026
     \<lparr>getFullYear = 2026, getMonth = 2, getDate = 9, msOfDay = 36000000\<rparr> ''03/08/2026''
     \<lparr>textContent = [], classList = []\<rparr> = \<lparr>textContent = ''0'', classList = [''warning'']\<rparr>"
  by code_simp

lemma fall_back_example:
  "renderDaysToExpiry ref_Date toronto_2026
     \<lparr>getFullYear = 2026, getMonth = 10, getDate = 1, msOfDay = 36000000\<rparr> ''11/02/2026''
     \<lparr>textContent = [], classList = []\<rparr> = \<lparr>textContent = ''2'', classList = [''warning'']\<rparr>"
  by code_simp

section \<open>Order of the date formats\<close>











section \<open>Licence match\<close>

lemma mainOp_loop_find:
  "mainOp_loop t ops = List.find (\<lambda>x. trim (or_str (dln x) []) = t) ops"
  by (induction ops) auto

lemma mainOp_first_match:
  "mainOp d ops = Some x \<longleftrightarrow>
     (\<exists>i<length ops. ops ! i = x \<and> trim (or_str (dln x) []) = trim (or_str d []) \<and>
        (\<forall>j<i. trim (or_str (dln (ops ! j)) []) \<noteq> trim (or_str d [])))"
  by (auto simp: mainOp_def mainOp_loop_find find_Some_iff)

lemma mainOp_no_match:
  "mainOp d ops = None \<longleftrightarrow>
     (\<forall>x\<in>set ops. trim (or_str (dln x) []) \<noteq> trim (or_str d []))"
  by (auto simp: mainOp_def mainOp_loop_find find_None_iff)

lemma mainOp_empty_list: "mainOp d [] = None"
  by (simp add: mainOp_def)

lemma dlnMatchedOp_empty_target: "\<not> truthy d \<Longrightarrow> dlnMatchedOp d ops = None"
  by (simp add: dlnMatchedOp_def)

lemma dlnMatchedOp_untrimmed:
  "dlnMatchedOp (Some ''L1234'')
     [\<lparr>operator_name = Some ''Pat Lee'', dln = Some '' L1234 '', relationship = None,
       year_of_birth = None, start_term = None, end_term = None\<rparr>] = None"
  by (simp add: dlnMatchedOp_def truthy_def)

lemma dlnMatchedOp_first_match:
  "dlnMatchedOp d ops = Some x \<longleftrightarrow>
     truthy d \<and> (\<exists>i<length ops. ops ! i = x \<and> dln x = d \<and> (\<forall>j<i. dln (ops ! j) \<noteq> d))"
  by (auto simp: dlnMatchedOp_def find_Some_iff)

text \<open>
  C4. On the policy page the licence match returns the first operator in list order
  whose trimmed licence equals the trimmed target, and none on an empty list or when
  no licence is equal (\<open>mainOp_first_match\<close>, \<open>mainOp_no_match\<close>,
  \<open>mainOp_empty_list\<close>). It does not return none for an empty target: an absent
  licence counts as the empty string, so with an empty (or blank, or absent) target the
  first operator whose licence is absent or blank is returned. The report page guards
  the empty target (\<open>dlnMatchedOp_empty_target\<close>) but compares without trimming
  (\<open>dlnMatchedOp_first_match\<close>, \<open>dlnMatchedOp_untrimmed\<close>).
\<close>

theorem mainOp_empty_target_matches_blank_licence:
  assumes "trim (or_str d []) = []"
    and "trim (or_str (dln x) []) = []"
    and "\<forall>y\<in>set pre. trim (or_str (dln y) []) \<noteq> []"
  shows "mainOp d (pre @ x # post) = Some x"
proof -
  have "mainOp_loop [] (pre @ x # post) = Some x"
    using assms(2,3) by (induction pre) auto
  then show ?thesis using assms(1) by (simp add: mainOp_def)
qed

theorem mainOp_empty_target_matches_blank_licence_witness:
  "mainOp None
     [\<lparr>operator_name = Some ''Pat Lee'', dln = Some ''L1234'', relationship = None,
       year_of_birth = None, start_term = Some ''01/01/2020'', end_term = None\<rparr>,
      \<lparr>operator_name = Some ''Sam Lee'', dln = None, relationship = None,
       year_of_birth = None, start_term = Some ''05/05/2021'', end_term = None\<rparr>] =
   Some \<lparr>operator_name = Some ''Sam Lee'', dln = None, relationship = None,
       year_of_birth = None, start_term = Some ''05/05/2021'', end_term = None\<rparr>"
proof -
  have t: "trim ''L1234'' \<noteq> []" by code_simp
  have e: "trim [] = []" by code_simp
  show ?thesis
    using mainOp_empty_target_matches_blank_licence[where d = None
      and pre = "[\<lparr>operator_name = Some ''Pat Lee'', dln = Some ''L1234'', relationship = None,
       year_of_birth = None, start_term = Some ''01/01/2020'', end_term = None\<rparr>]"
      and x = "\<lparr>operator_name = Some ''Sam Lee'', dln = None, relationship = None,
       year_of_birth = None, start_term = Some ''05/05/2021'', end_term = None\<rparr>"
      and post = "[]"] t e
    by (simp add: or_str_def)
qed


section \<open>Name match\<close>

lemma str_includes_iff: "str_includes s part \<longleftrightarrow> (\<exists>pre post. s = pre @ part @ post)"
proof
  assume "str_includes s part"
  then have "\<exists>i\<in>set [0..<Suc (length s)]. take (length part) (drop i s) = part"
    unfolding str_includes_def list_ex_iff .
  then obtain i where i: "take (length part) (drop i s) = part" by blast
  have "drop i s = take (length part) (drop i s) @ drop (length part) (drop i s)"
    by (rule append_take_drop_id[symmetric])
  then have "s = take i s @ take (length part) (drop i s) @ drop (length part) (drop i s)"
    by (metis append_take_drop_id)
  then show "\<exists>pre post. s = pre @ part @ post" using i by metis
next
  assume "\<exists>pre post. s = pre @ part @ post"
  then obtain pre post where "s = pre @ part @ post" by blast
  then have "length pre \<le> length s \<and> take (length part) (drop (length pre) s) = part" by simp
  then show "str_includes s part"
    unfolding str_includes_def list_ex_iff by (intro bexI[of _ "length pre"]) auto
qed

lemma policyholderParts_tokens:
  "t \<in> set (policyholderParts lower h) \<Longrightarrow>
   t \<noteq> [] \<and> t \<noteq> ''and'' \<and> t \<in> set (split_ws (policyholderName lower h))"
  by (auto simp: policyholderParts_def)

lemma every_part_iff:
  "every_part lower h x \<longleftrightarrow>
     truthy (operator_name x) \<and>
     (\<forall>t\<in>set (policyholderParts lower h). \<exists>pre post. opNameLower lower x = pre @ t @ post)"
  by (auto simp: every_part_def list_all_iff str_includes_iff)

lemma find_first_index:
  "i < length xs \<Longrightarrow> Q (xs ! i) \<Longrightarrow> (\<forall>j<i. \<not> Q (xs ! j)) \<Longrightarrow> List.find Q xs = Some (xs ! i)"
  by (auto simp: find_Some_iff)

lemma matchedOp_named: "matchedOp lower h ops = Some m \<Longrightarrow> truthy (operator_name m)"
  by (auto simp: matchedOp_def exact_name_def every_part_def find_Some_iff
      split: option.splits if_splits)

text \<open>White space beyond ASCII separates tokens and is trimmed: a no-break space.\<close>

lemma no_break_space_splits:
  "split_ws (''john'' @ [CHR 0xC2, CHR 0xA0] @ ''smith'') = [''john'', ''smith'']
   \<and> trim ([CHR 0xC2, CHR 0xA0] @ ''L1234'' @ [CHR 0xE3, CHR 0x80, CHR 0x80, CHR 0x20]) = ''L1234''"
  by code_simp

text \<open>
  C8, amended. Names are trimmed and lower-cased as the engine does it (\<open>lower\<close> is any
  function). The first operator in list order whose trimmed, lower-cased name equals
  the trimmed, lower-cased policyholder name is selected. Without such an operator,
  and provided the policyholder name leaves at least one token (white-space separated
  parts other than \<open>and\<close>), the first operator whose lower-cased name contains every
  token is selected. Otherwise (no token, or no operator containing all of them) no
  operator is selected and the operator name shown is that of the operator at index 0,
  or the em-dash when the list is empty or that operator has no name. A selected
  operator's name is the one shown. Nothing raises.
\<close>

theorem matchedOp_by_name:
  "(\<forall>i. i < length ops \<and> exact_name lower h (ops ! i) \<and>
        (\<forall>j<i. \<not> exact_name lower h (ops ! j)) \<longrightarrow>
        matchedOp lower h ops = Some (ops ! i)) \<and>
   (\<forall>i. (\<forall>x\<in>set ops. \<not> exact_name lower h x) \<and> policyholderParts lower h \<noteq> [] \<and>
        i < length ops \<and> every_part lower h (ops ! i) \<and>
        (\<forall>j<i. \<not> every_part lower h (ops ! j)) \<longrightarrow>
        matchedOp lower h ops = Some (ops ! i)) \<and>
   ((\<forall>x\<in>set ops. \<not> exact_name lower h x) \<and>
      (policyholderParts lower h = [] \<or> (\<forall>x\<in>set ops. \<not> every_part lower h x)) \<longrightarrow>
        matchedOp lower h ops = None \<and>
        displayOp lower h ops =
          (case ops of [] \<Rightarrow> em_dash | x # _ \<Rightarrow> or_str (operator_name x) em_dash)) \<and>
   (\<forall>m. matchedOp lower h ops = Some m \<longrightarrow>
        displayOp lower h ops = or_str (operator_name m) em_dash)"
proof (intro conjI allI impI)
  fix i assume "i < length ops \<and> exact_name lower h (ops ! i) \<and>
        (\<forall>j<i. \<not> exact_name lower h (ops ! j))"
  then have "List.find (exact_name lower h) ops = Some (ops ! i)"
    by (intro find_first_index) auto
  then show "matchedOp lower h ops = Some (ops ! i)" by (simp add: matchedOp_def)
next
  fix i assume a: "(\<forall>x\<in>set ops. \<not> exact_name lower h x) \<and> policyholderParts lower h \<noteq> [] \<and>
        i < length ops \<and> every_part lower h (ops ! i) \<and>
        (\<forall>j<i. \<not> every_part lower h (ops ! j))"
  then have "List.find (exact_name lower h) ops = None" by (simp add: find_None_iff)
  moreover have "List.find (every_part lower h) ops = Some (ops ! i)"
    using a by (intro find_first_index) auto
  ultimately show "matchedOp lower h ops = Some (ops ! i)" using a by (simp add: matchedOp_def)
next
  assume a: "(\<forall>x\<in>set ops. \<not> exact_name lower h x) \<and>
      (policyholderParts lower h = [] \<or> (\<forall>x\<in>set ops. \<not> every_part lower h x))"
  then have e: "List.find (exact_name lower h) ops = None" by (simp add: find_None_iff)
  have "policyholderParts lower h \<noteq> [] \<Longrightarrow> List.find (every_part lower h) ops = None"
    using a by (auto simp: find_None_iff)
  then show "matchedOp lower h ops = None" using e by (auto simp: matchedOp_def)
  then show "displayOp lower h ops =
      (case ops of [] \<Rightarrow> em_dash | x # _ \<Rightarrow> or_str (operator_name x) em_dash)"
    by (simp add: displayOp_def opt_field_def first_op_def js_or_def truthy_def or_str_def
        split: list.splits option.splits)
next
  fix m assume a: "matchedOp lower h ops = Some m"
  then have "truthy (operator_name m)" by (rule matchedOp_named)
  then show "displayOp lower h ops = or_str (operator_name m) em_dash"
    using a by (simp add: displayOp_def opt_field_def js_or_def)
qed

theorem matchedOp_by_name_witness:
  "matchedOp ascii_lower
     \<lparr>policyholder_name = Some ''John and Jane Smith'', effective_date = None, expiry_date = None,
      cancellation_date = None, end_of_latest_term = None\<rparr>
     [\<lparr>operator_name = Some ''Smith, John'', dln = None, relationship = None,
       year_of_birth = Some ''1975'', start_term = None, end_term = None\<rparr>,
      \<lparr>operator_name = Some ''SMITH, Jane and John'', dln = None, relationship = None,
       year_of_birth = Some ''1980'', start_term = None, end_term = None\<rparr>] =
   Some \<lparr>operator_name = Some ''SMITH, Jane and John'', dln = None, relationship = None,
       year_of_birth = Some ''1980'', start_term = None, end_term = None\<rparr>"
proof -
  let ?h = "\<lparr>policyholder_name = Some ''John and Jane Smith'', effective_date = None,
      expiry_date = None, cancellation_date = None, end_of_latest_term = None\<rparr>"
  let ?a = "\<lparr>operator_name = Some ''Smith, John'', dln = None, relationship = None,
       year_of_birth = Some ''1975'', start_term = None, end_term = None\<rparr>"
  let ?b = "\<lparr>operator_name = Some ''SMITH, Jane and John'', dln = None, relationship = None,
       year_of_birth = Some ''1980'', start_term = None, end_term = None\<rparr>"
  have 1: "\<not> exact_name ascii_lower ?h ?a" by code_simp
  have 2: "\<not> exact_name ascii_lower ?h ?b" by code_simp
  have 3: "policyholderParts ascii_lower ?h \<noteq> []" by code_simp
  have 4: "\<not> every_part ascii_lower ?h ?a" by code_simp
  have 5: "every_part ascii_lower ?h ?b" by code_simp
  have "(\<forall>x\<in>set [?a, ?b]. \<not> exact_name ascii_lower ?h x) \<and>
        policyholderParts ascii_lower ?h \<noteq> [] \<and>
        1 < length [?a, ?b] \<and> every_part ascii_lower ?h ([?a, ?b] ! 1) \<and>
        (\<forall>j<1. \<not> every_part ascii_lower ?h ([?a, ?b] ! j))"
    using 1 2 3 4 5 by simp
  then have "matchedOp ascii_lower ?h [?a, ?b] = Some ([?a, ?b] ! 1)"
    using matchedOp_by_name[of "[?a, ?b]" ascii_lower ?h] by blast
  then show ?thesis by simp
qed

text \<open>
  C8 as stated fails when the policyholder name leaves no token: every named
  operator then contains every token, yet the code selects none (the guard
  \<open>policyholderParts.length > 0\<close>), and the year of birth shown is the em-dash.
\<close>

theorem matchByName_no_tokens_counterexample:
  "spec_matchByName ascii_lower
     \<lparr>policyholder_name = None, effective_date = None, expiry_date = None,
      cancellation_date = None, end_of_latest_term = None\<rparr>
     [\<lparr>operator_name = Some ''Bob Ray'', dln = None, relationship = None,
       year_of_birth = Some ''1980'', start_term = None, end_term = None\<rparr>] =
   Some \<lparr>operator_name = Some ''Bob Ray'', dln = None, relationship = None,
       year_of_birth = Some ''1980'', start_term = None, end_term = None\<rparr>
   \<and> matchedOp ascii_lower
     \<lparr>policyholder_name = None, effective_date = None, expiry_date = None,
      cancellation_date = None, end_of_latest_term = None\<rparr>
     [\<lparr>operator_name = Some ''Bob Ray'', dln = None, relationship = None,
       year_of_birth = Some ''1980'', start_term = None, end_term = None\<rparr>] = None
   \<and> displayYearOfBirth ascii_lower
     \<lparr>policyholder_name = None, effective_date = None, expiry_date = None,
      cancellation_date = None, end_of_latest_term = None\<rparr>
     [\<lparr>operator_name = Some ''Bob Ray'', dln = None, relationship = None,
       year_of_birth = Some ''1980'', start_term = None, end_term = None\<rparr>] = em_dash"
  by code_simp

section \<open>Start of earliest term: the chains of the two pages\<close>

lemma mainOp_in_list: "mainOp d ops = Some m \<Longrightarrow> m \<in> set ops"
  by (auto simp: mainOp_first_match)

lemma formatDateToMMDDYYYY_valid:
  "formatDateToMMDDYYYY (Some (ValidDate c)) =
     padStart2 (num_toString (Num (getMonth c + 1))) @ ''/'' @
     padStart2 (num_toString (Num (getDate c))) @ ''/'' @ num_toString (Num (getFullYear c))"
  by (simp add: formatDateToMMDDYYYY_def)

lemma chosenOp_main:
  "mainOp d (operators p) = Some m \<Longrightarrow> has_terms m \<Longrightarrow> chosenOp d p = Some m"
  by (simp add: chosenOp_def)

lemma chosenOp_other:
  "mainOp d (operators p) = None \<or> (\<exists>m. mainOp d (operators p) = Some m \<and> \<not> has_terms m) \<Longrightarrow>
   chosenOp d p = List.find has_terms (operators p)"
  by (auto simp: chosenOp_def)

lemma rpf_displayStartTerm_chosenOp:
  "rpf_displayStartTerm d p =
     (case chosenOp d p of
        Some c \<Rightarrow> or_str (start_term c) em_dash
      | None \<Rightarrow> or_str (effective_date (header p)) em_dash)"
  by (auto simp: rpf_displayStartTerm_def chosenOp_def Let_def split: option.splits)

text \<open>
  C2, amended. Report page (renderPolicies): the start term shown is the policy's own
  non-empty \<open>start_of_earliest_term\<close>; else the non-empty \<open>start_term\<close> of the first
  operator whose licence is the driver's (non-empty) licence, shown as
  month/day/year of the parsed date, month and day padded to two digits, when
  \<open>parseMaybeDate\<close> gives a valid date, and as written when it gives no date; else the
  em-dash. Other operators and the header's \<open>effective_date\<close> are not consulted there.
  Policy page (renderPolicyFull): the operator consulted is the licence-matched
  operator when it has a start or an end term, else the first operator in list order
  that has a start or an end term, else none. The operator box shows that operator's
  \<open>start_term\<close>, or the em-dash when it is empty, and without such an operator the
  header's \<open>effective_date\<close>, or the em-dash. The dates row shows that operator's
  non-empty \<open>start_term\<close>, else the header's \<open>effective_date\<close>, else the em-dash. The
  policy's own \<open>start_of_earliest_term\<close> is not consulted on the policy page.
\<close>

theorem displayStartTerm_chains:
  "(truthy (start_of_earliest_term p) \<longrightarrow>
      rp_displayStartTerm P d p = or_str (start_of_earliest_term p) em_dash) \<and>
   (\<forall>m c. \<not> truthy (start_of_earliest_term p) \<and> dlnMatchedOp d (operators p) = Some m \<and>
        truthy (start_term m) \<and> parseMaybeDate P (start_term m) = Some (ValidDate c) \<longrightarrow>
      rp_displayStartTerm P d p =
        padStart2 (num_toString (Num (getMonth c + 1))) @ ''/'' @
        padStart2 (num_toString (Num (getDate c))) @ ''/'' @ num_toString (Num (getFullYear c))) \<and>
   (\<forall>m. \<not> truthy (start_of_earliest_term p) \<and> dlnMatchedOp d (operators p) = Some m \<and>
        truthy (start_term m) \<and> parseMaybeDate P (start_term m) = None \<longrightarrow>
      rp_displayStartTerm P d p = or_str (start_term m) em_dash) \<and>
   (\<not> truthy (start_of_earliest_term p) \<and>
      (dlnMatchedOp d (operators p) = None \<or>
       (\<exists>m. dlnMatchedOp d (operators p) = Some m \<and> \<not> truthy (start_term m))) \<longrightarrow>
      rp_displayStartTerm P d p = em_dash) \<and>
   (\<forall>m. mainOp d (operators p) = Some m \<and> has_terms m \<longrightarrow> chosenOp d p = Some m) \<and>
   (\<forall>i. (mainOp d (operators p) = None \<or>
         (\<exists>m. mainOp d (operators p) = Some m \<and> \<not> has_terms m)) \<and>
        i < length (operators p) \<and> has_terms (operators p ! i) \<and>
        (\<forall>j<i. \<not> has_terms (operators p ! j)) \<longrightarrow>
      chosenOp d p = Some (operators p ! i)) \<and>
   ((\<forall>x\<in>set (operators p). \<not> has_terms x) \<longrightarrow> chosenOp d p = None) \<and>
   (\<forall>c. chosenOp d p = Some c \<longrightarrow>
      rpf_displayStartTerm d p = or_str (start_term c) em_dash \<and>
      startEarliest d p =
        (if truthy (start_term c) then or_str (start_term c) em_dash
         else or_str (effective_date (header p)) em_dash)) \<and>
   (chosenOp d p = None \<longrightarrow>
      rpf_displayStartTerm d p = or_str (effective_date (header p)) em_dash \<and>
      startEarliest d p = or_str (effective_date (header p)) em_dash)"
proof (intro conjI allI impI)
  assume "truthy (start_of_earliest_term p)"
  then show "rp_displayStartTerm P d p = or_str (start_of_earliest_term p) em_dash"
    by (simp add: rp_displayStartTerm_def Let_def split: option.splits)
next
  fix m c
  assume "\<not> truthy (start_of_earliest_term p) \<and> dlnMatchedOp d (operators p) = Some m \<and>
        truthy (start_term m) \<and> parseMaybeDate P (start_term m) = Some (ValidDate c)"
  then show "rp_displayStartTerm P d p =
        padStart2 (num_toString (Num (getMonth c + 1))) @ ''/'' @
        padStart2 (num_toString (Num (getDate c))) @ ''/'' @ num_toString (Num (getFullYear c))"
    by (simp add: rp_displayStartTerm_def Let_def shown_term_def formatDateToMMDDYYYY_valid)
next
  fix m
  assume "\<not> truthy (start_of_earliest_term p) \<and> dlnMatchedOp d (operators p) = Some m \<and>
        truthy (start_term m) \<and> parseMaybeDate P (start_term m) = None"
  then show "rp_displayStartTerm P d p = or_str (start_term m) em_dash"
    by (auto simp: rp_displayStartTerm_def Let_def shown_term_def or_str_def truthy_def
        split: option.splits)
next
  assume "\<not> truthy (start_of_earliest_term p) \<and>
      (dlnMatchedOp d (operators p) = None \<or>
       (\<exists>m. dlnMatchedOp d (operators p) = Some m \<and> \<not> truthy (start_term m)))"
  then show "rp_displayStartTerm P d p = em_dash"
    by (auto simp: rp_displayStartTerm_def Let_def)
next
  fix m assume "mainOp d (operators p) = Some m \<and> has_terms m"
  then show "chosenOp d p = Some m" by (simp add: chosenOp_main)
next
  fix i assume a: "(mainOp d (operators p) = None \<or>
         (\<exists>m. mainOp d (operators p) = Some m \<and> \<not> has_terms m)) \<and>
        i < length (operators p) \<and> has_terms (operators p ! i) \<and>
        (\<forall>j<i. \<not> has_terms (operators p ! j))"
  then have "List.find has_terms (operators p) = Some (operators p ! i)"
    by (intro find_first_index) auto
  then show "chosenOp d p = Some (operators p ! i)"
    using a chosenOp_other[of d p] by simp
next
  assume a: "\<forall>x\<in>set (operators p). \<not> has_terms x"
  then have f: "List.find has_terms (operators p) = None" by (simp add: find_None_iff)
  have "\<And>m. mainOp d (operators p) = Some m \<Longrightarrow> \<not> has_terms m"
    using a mainOp_in_list by blast
  then show "chosenOp d p = None"
    using f by (auto simp: chosenOp_def split: option.splits)
next
  fix c assume "chosenOp d p = Some c"
  then show "rpf_displayStartTerm d p = or_str (start_term c) em_dash"
    by (simp add: rpf_displayStartTerm_chosenOp)
next
  fix c assume "chosenOp d p = Some c"
  then show "startEarliest d p =
        (if truthy (start_term c) then or_str (start_term c) em_dash
         else or_str (effective_date (header p)) em_dash)"
    by (simp add: startEarliest_def opt_field_def)
next
  assume "chosenOp d p = None"
  then show "rpf_displayStartTerm d p = or_str (effective_date (header p)) em_dash"
    by (simp add: rpf_displayStartTerm_chosenOp)
next
  assume "chosenOp d p = None"
  then show "startEarliest d p = or_str (effective_date (header p)) em_dash"
    by (simp add: startEarliest_def opt_field_def truthy_def)
qed

lemma parse_iso_example:
  "parseMaybeDate ref_Date (Some ''2021-03-04'') =
     Some (ValidDate \<lparr>getFullYear = 2021, getMonth = 2, getDate = 4, msOfDay = 0\<rparr>)"
  by code_simp

lemma padded_example:
  "padStart2 (num_toString (Num 3)) @ ''/'' @ padStart2 (num_toString (Num 4)) @ ''/'' @
   num_toString (Num 2021) = ''03/04/2021''"
  by code_simp

theorem displayStartTerm_chains_witness:
  "rp_displayStartTerm ref_Date (Some ''L1234'')
     \<lparr>header = \<lparr>policyholder_name = None, effective_date = Some ''01/01/2022'',
                 expiry_date = None, cancellation_date = None, end_of_latest_term = None\<rparr>,
      operators = [\<lparr>operator_name = Some ''Pat Lee'', dln = Some ''L1234'', relationship = None,
                     year_of_birth = None, start_term = Some ''2021-03-04'', end_term = None\<rparr>],
      start_of_earliest_term = None\<rparr> = ''03/04/2021''"
proof -
  let ?m = "\<lparr>operator_name = Some ''Pat Lee'', dln = Some ''L1234'', relationship = None,
                     year_of_birth = None, start_term = Some ''2021-03-04'', end_term = None\<rparr>"
  let ?p = "\<lparr>header = \<lparr>policyholder_name = None, effective_date = Some ''01/01/2022'',
                 expiry_date = None, cancellation_date = None, end_of_latest_term = None\<rparr>,
      operators = [?m], start_of_earliest_term = None\<rparr>"
  let ?c = "\<lparr>getFullYear = 2021, getMonth = 2, getDate = 4, msOfDay = 0\<rparr>"
  have "\<not> truthy (start_of_earliest_term ?p) \<and>
        dlnMatchedOp (Some ''L1234'') (operators ?p) = Some ?m \<and> truthy (start_term ?m) \<and>
        parseMaybeDate ref_Date (start_term ?m) = Some (ValidDate ?c)"
    using parse_iso_example by (simp add: truthy_def dlnMatchedOp_def)
  then have "rp_displayStartTerm ref_Date (Some ''L1234'') ?p =
        padStart2 (num_toString (Num (getMonth ?c + 1))) @ ''/'' @
        padStart2 (num_toString (Num (getDate ?c))) @ ''/'' @ num_toString (Num (getFullYear ?c))"
    using displayStartTerm_chains[of ?p ref_Date "Some ''L1234''"] by blast
  then show ?thesis using padded_example by simp
qed

text \<open>
  C2 as stated fails on both pages. Report page: a policy without
  \<open>start_of_earliest_term\<close> and without operators shows the em-dash although its
  header has an \<open>effective_date\<close>. Policy page: the matched operator's \<open>start_term\<close> is
  shown although the policy has its own \<open>start_of_earliest_term\<close>.
\<close>

theorem start_chain_counterexample:
  "rp_displayStartTerm ref_Date (Some ''L1234'')
     \<lparr>header = \<lparr>policyholder_name = None, effective_date = Some ''01/01/2022'',
                 expiry_date = None, cancellation_date = None, end_of_latest_term = None\<rparr>,
      operators = [], start_of_earliest_term = None\<rparr> = em_dash
   \<and> spec_start_chain
     \<lparr>header = \<lparr>policyholder_name = None, effective_date = Some ''01/01/2022'',
                 expiry_date = None, cancellation_date = None, end_of_latest_term = None\<rparr>,
      operators = [], start_of_earliest_term = None\<rparr>
     (dlnMatchedOp (Some ''L1234'') []) = ''01/01/2022''
   \<and> rpf_displayStartTerm (Some ''L1234'')
     \<lparr>header = \<lparr>policyholder_name = None, effective_date = Some ''01/01/2022'',
                 expiry_date = None, cancellation_date = None, end_of_latest_term = None\<rparr>,
      operators = [\<lparr>operator_name = Some ''Pat Lee'', dln = Some ''L1234'', relationship = None,
                     year_of_birth = None, start_term = Some ''03/03/2021'', end_term = None\<rparr>],
      start_of_earliest_term = Some ''02/02/2020''\<rparr> = ''03/03/2021''
   \<and> spec_start_chain
     \<lparr>header = \<lparr>policyholder_name = None, effective_date = Some ''01/01/2022'',
                 expiry_date = None, cancellation_date = None, end_of_latest_term = None\<rparr>,
      operators = [\<lparr>operator_name = Some ''Pat Lee'', dln = Some ''L1234'', relationship = None,
                     year_of_birth = None, start_term = Some ''03/03/2021'', end_term = None\<rparr>],
      start_of_earliest_term = Some ''02/02/2020''\<rparr>
     (mainOp (Some ''L1234'')
        [\<lparr>operator_name = Some ''Pat Lee'', dln = Some ''L1234'', relationship = None,
          year_of_birth = None, start_term = Some ''03/03/2021'', end_term = None\<rparr>]) = ''02/02/2020''"
  by code_simp

section \<open>Policy numbers\<close>

lemma arrays_after: "renderPolicies_arrays ps Policies = ps \<and> renderPolicies_arrays ps Reversed = rev ps"
  by (simp add: renderPolicies_arrays_def reverse_in_place_def spread_into_def)

text \<open>
  C3, amended. The list as received is left as it is: the reversal is done on a copy.
  The policies are shown in chronological order (the received list reversed), and the
  number shown with each is the list size minus its position in the reversed list,
  that is its position in the received list plus one. So the most recent policy
  (received index 0) is numbered 1 and the chronologically oldest is numbered with the
  list size.
\<close>

theorem policy_badges_numbering:
  "renderPolicies_arrays ps Policies = ps \<and>
   map snd (policy_badges ps) = rev ps \<and>
   (\<forall>i<length ps. policy_badges ps ! (length ps - 1 - i) = (i + 1, ps ! i)) \<and>
   (ps \<noteq> [] \<longrightarrow> hd (policy_badges ps) = (length ps, last ps) \<and>
                  last (policy_badges ps) = (1, hd ps))"
proof -
  have b: "policy_badges ps = map (\<lambda>k. (length ps - k, rev ps ! k)) [0..<length ps]"
    by (simp add: policy_badges_def arrays_after Let_def)
  have 1: "map snd (policy_badges ps) = rev ps"
    unfolding b by (rule nth_equalityI) auto
  have 2: "\<forall>i<length ps. policy_badges ps ! (length ps - 1 - i) = (i + 1, ps ! i)"
  proof (intro allI impI)
    fix i assume i: "i < length ps"
    then have k: "length ps - 1 - i < length ps" by arith
    have "policy_badges ps ! (length ps - 1 - i) =
          (length ps - (length ps - 1 - i), rev ps ! (length ps - 1 - i))"
      unfolding b using k by (simp del: upt_Suc)
    moreover have "length ps - (length ps - 1 - i) = i + 1" using i by arith
    moreover have "rev ps ! (length ps - 1 - i) = ps ! i" using i by (simp add: rev_nth)
    ultimately show "policy_badges ps ! (length ps - 1 - i) = (i + 1, ps ! i)" by simp
  qed
  have 3: "ps \<noteq> [] \<longrightarrow> hd (policy_badges ps) = (length ps, last ps) \<and>
                  last (policy_badges ps) = (1, hd ps)"
  proof
    assume ne: "ps \<noteq> []"
    then have l: "0 < length ps" by simp
    have nb: "policy_badges ps \<noteq> []" using ne unfolding b by simp
    have lb: "length (policy_badges ps) = length ps" unfolding b by simp
    have "hd (policy_badges ps) = policy_badges ps ! 0"
      using nb by (simp add: hd_conv_nth)
    also have "\<dots> = (length ps - 0, rev ps ! 0)"
      unfolding b using l by (simp del: upt_Suc)
    finally have h: "hd (policy_badges ps) = (length ps, last ps)"
      using ne l by (simp add: rev_nth last_conv_nth)
    have "last (policy_badges ps) = policy_badges ps ! (length ps - 1)"
      using nb lb by (simp add: last_conv_nth)
    also have "\<dots> = (length ps - (length ps - 1), rev ps ! (length ps - 1))"
      unfolding b using l by (simp del: upt_Suc)
    finally have "last (policy_badges ps) = (1, hd ps)"
      using ne l by (simp add: rev_nth hd_conv_nth)
    with h show "hd (policy_badges ps) = (length ps, last ps) \<and>
                  last (policy_badges ps) = (1, hd ps)" by simp
  qed
  show ?thesis using arrays_after 1 2 3 by blast
qed


theorem policy_badges_numbering_witness:
  "policy_badges
     [\<lparr>header = \<lparr>policyholder_name = None, effective_date = Some ''01/01/2024'',
                  expiry_date = None, cancellation_date = None, end_of_latest_term = None\<rparr>,
       operators = [], start_of_earliest_term = None\<rparr>,
      \<lparr>header = \<lparr>policyholder_name = None, effective_date = Some ''01/01/2023'',
                  expiry_date = None, cancellation_date = None, end_of_latest_term = None\<rparr>,
       operators = [], start_of_earliest_term = None\<rparr>,
      \<lparr>header = \<lparr>policyholder_name = None, effective_date = Some ''01/01/2022'',
                  expiry_date = None, cancellation_date = None, end_of_latest_term = None\<rparr>,
       operators = [], start_of_earliest_term = None\<rparr>] ! 0 =
   (3, \<lparr>header = \<lparr>policyholder_name = None, effective_date = Some ''01/01/2022'',
                  expiry_date = None, cancellation_date = None, end_of_latest_term = None\<rparr>,
       operators = [], start_of_earliest_term = None\<rparr>)"
proof -
  let ?a = "\<lparr>header = \<lparr>policyholder_name = None, effective_date = Some ''01/01/2024'',
                  expiry_date = None, cancellation_date = None, end_of_latest_term = None\<rparr>,
       operators = [], start_of_earliest_term = None\<rparr>"
  let ?b = "\<lparr>header = \<lparr>policyholder_name = None, effective_date = Some ''01/01/2023'',
                  expiry_date = None, cancellation_date = None, end_of_latest_term = None\<rparr>,
       operators = [], start_of_earliest_term = None\<rparr>"
  let ?c = "\<lparr>header = \<lparr>policyholder_name = None, effective_date = Some ''01/01/2022'',
                  expiry_date = None, cancellation_date = None, end_of_latest_term = None\<rparr>,
       operators = [], start_of_earliest_term = None\<rparr>"
  have "\<forall>i<length [?a, ?b, ?c].
          policy_badges [?a, ?b, ?c] ! (length [?a, ?b, ?c] - 1 - i) = (i + 1, [?a, ?b, ?c] ! i)"
    using policy_badges_numbering[of "[?a, ?b, ?c]"] by blast
  then have "policy_badges [?a, ?b, ?c] ! (length [?a, ?b, ?c] - 1 - 2) = (2 + 1, [?a, ?b, ?c] ! 2)"
    by (metis (no_types) length_Cons list.size(3) lessI numeral_2_eq_2)
  then show ?thesis by simp
qed

text \<open>
  C3 as stated fails for two policies: the chronologically oldest policy, the last of
  the received list, is shown first and is numbered 2.
\<close>

theorem oldest_policy_number_counterexample:
  "policy_badges
     [\<lparr>header = \<lparr>policyholder_name = None, effective_date = Some ''01/01/2024'',
                  expiry_date = None, cancellation_date = None, end_of_latest_term = None\<rparr>,
       operators = [], start_of_earliest_term = None\<rparr>,
      \<lparr>header = \<lparr>policyholder_name = None, effective_date = Some ''01/01/2023'',
                  expiry_date = None, cancellation_date = None, end_of_latest_term = None\<rparr>,
       operators = [], start_of_earliest_term = None\<rparr>] =
   [(2, \<lparr>header = \<lparr>policyholder_name = None, effective_date = Some ''01/01/2023'',
                   expiry_date = None, cancellation_date = None, end_of_latest_term = None\<rparr>,
        operators = [], start_of_earliest_term = None\<rparr>),
    (1, \<lparr>header = \<lparr>policyholder_name = None, effective_date = Some ''01/01/2024'',
                   expiry_date = None, cancellation_date = None, end_of_latest_term = None\<rparr>,
        operators = [], start_of_earliest_term = None\<rparr>)]"
  by (simp add: policy_badges_def renderPolicies_arrays_def reverse_in_place_def spread_into_def)

section \<open>Gap badges\<close>

lemma gap_text_sign:
  "gap_text sfx (Num m) =
     (if m > 0 then ''Coverage Gap'' @ sfx @ '' '' @ em_dash @ '' '' @ num_toString (Num m) @
                    '' month'' @ (if m = 1 then [] else ''s'')
      else if m = 0 then ''No Coverage Gap'' @ sfx
      else ''Overlap'' @ sfx @ '' '' @ em_dash @ '' '' @ num_toString (Num \<bar>m\<bar>) @
           '' month'' @ (if \<bar>m\<bar> = 1 then [] else ''s''))"
  by (simp add: gap_text_def plural_def)

lemma gapMsg_determinate:
  assumes "parseMaybeDate P (js_or (expiry_date h) (cancellation_date h)) = Some (ValidDate a)"
    and "parseMaybeDate P (effective_date h) = Some (ValidDate b)"
  shows "gapMsg P h =
           gap_text [] (Num ((getFullYear b - getFullYear a) * 12 + (getMonth b - getMonth a)))"
  using assms by (simp add: gapMsg_def monthsBetween_def)

lemma interMsg_determinate:
  assumes "parseMaybeDate P (js_or (expiry_date prev) (cancellation_date prev)) = Some (ValidDate a)"
    and "parseMaybeDate P (effective_date h) = Some (ValidDate b)"
  shows "interMsg P prev h =
           Some (gap_text '' vs Prev Policy''
                   (Num ((getFullYear b - getFullYear a) * 12 + (getMonth b - getMonth a))))"
  using assms by (simp add: interMsg_def monthsBetween_def)

lemma gapMsg_null:
  "parseMaybeDate P (js_or (expiry_date h) (cancellation_date h)) = None \<or>
   parseMaybeDate P (effective_date h) = None \<Longrightarrow> gapMsg P h = []"
  by (auto simp: gapMsg_def monthsBetween_def split: option.splits)

lemma interMsg_null:
  "parseMaybeDate P (js_or (expiry_date prev) (cancellation_date prev)) = None \<or>
   parseMaybeDate P (effective_date h) = None \<Longrightarrow> interMsg P prev h = None"
  by (auto simp: interMsg_def monthsBetween_def split: option.splits)

text \<open>
  C6. With two valid dates the badge follows the sign of the month count: positive is
  a coverage gap, zero is no gap, negative is an overlap reported with the absolute
  value (\<open>gap_text_sign\<close>, \<open>gapMsg_determinate\<close>, \<open>interMsg_determinate\<close>); when
  \<open>parseMaybeDate\<close> returns \<open>null\<close> for either boundary no badge is produced
  (\<open>gapMsg_null\<close>, \<open>interMsg_null\<close>). The claim fails for a boundary that matches
  one of the two patterns without naming a date: \<open>parseMaybeDate\<close> returns an invalid
  Date object, which passes the guard, the month count is \<open>NaN\<close>, both comparisons are
  false, and the badge reads Overlap, \<open>NaN\<close> months.
\<close>

theorem gapMsg_invalid_date_is_overlap_NaN:
  assumes "parseMaybeDate P (js_or (expiry_date h) (cancellation_date h)) = Some e"
    and "parseMaybeDate P (effective_date h) = Some s"
    and "e = InvalidDate \<or> s = InvalidDate"
  shows "gapMsg P h = ''Overlap '' @ em_dash @ '' NaN months''"
proof -
  have "monthsBetween (Some e) (Some s) = Some NaN"
    using assms(3) by (cases e; cases s) (auto simp: monthsBetween_def)
  then show ?thesis
    using assms(1,2) by (simp add: gapMsg_def gap_text_def plural_def)
qed

theorem gapMsg_invalid_date_is_overlap_NaN_witness:
  "gapMsg ref_Date
     \<lparr>policyholder_name = None, effective_date = Some ''01/01/2024'',
      expiry_date = Some ''13/45/2024'', cancellation_date = None, end_of_latest_term = None\<rparr> =
   ''Overlap '' @ em_dash @ '' NaN months''"
proof -
  let ?h = "\<lparr>policyholder_name = None, effective_date = Some ''01/01/2024'',
      expiry_date = Some ''13/45/2024'', cancellation_date = None, end_of_latest_term = None\<rparr>"
  have 1: "parseMaybeDate ref_Date (js_or (expiry_date ?h) (cancellation_date ?h)) = Some InvalidDate"
    by code_simp
  have 2: "parseMaybeDate ref_Date (effective_date ?h) =
      Some (ValidDate \<lparr>getFullYear = 2024, getMonth = 0, getDate = 1, msOfDay = 0\<rparr>)"
    by code_simp
  show ?thesis
    using gapMsg_invalid_date_is_overlap_NaN[where P = ref_Date and h = ?h, OF 1 2] by simp
qed

end
